theory Spec2Isabelle
  imports Complex_Main "HOL-Library.Word"
begin

section \<open>Vectors\<close>

text \<open>
  Every point, direction and colour of the program is a numpy array of three floats.
  Floats are idealised as reals throughout: the development is about the formulas the
  code evaluates, not about rounding.
\<close>

datatype vec3 = Vec3 real real real

fun vadd :: "vec3 \<Rightarrow> vec3 \<Rightarrow> vec3" where
  "vadd (Vec3 a b c) (Vec3 d e f) = Vec3 (a + d) (b + e) (c + f)"

fun vsub :: "vec3 \<Rightarrow> vec3 \<Rightarrow> vec3" where
  "vsub (Vec3 a b c) (Vec3 d e f) = Vec3 (a - d) (b - e) (c - f)"

fun smul :: "real \<Rightarrow> vec3 \<Rightarrow> vec3" where
  "smul k (Vec3 a b c) = Vec3 (k * a) (k * b) (k * c)"

fun vmul :: "vec3 \<Rightarrow> vec3 \<Rightarrow> vec3" where
  "vmul (Vec3 a b c) (Vec3 d e f) = Vec3 (a * d) (b * e) (c * f)"

fun vneg :: "vec3 \<Rightarrow> vec3" where
  "vneg (Vec3 a b c) = Vec3 (- a) (- b) (- c)"

fun dot :: "vec3 \<Rightarrow> vec3 \<Rightarrow> real" where
  "dot (Vec3 a b c) (Vec3 d e f) = a * d + b * e + c * f"

fun vmap :: "(real \<Rightarrow> real) \<Rightarrow> vec3 \<Rightarrow> vec3" where
  "vmap g (Vec3 a b c) = Vec3 (g a) (g b) (g c)"

definition zeros3 :: vec3 where
  "zeros3 = Vec3 0 0 0"

section \<open>Rays and primitives (ray.py)\<close>

record ray =
  pr :: vec3
  nr :: vec3

record material =
  diffuse :: vec3

text \<open>
  The classes of object.py, which is missing, are records of the attributes that ray.py,
  raytrace.py and sky.py read from their instances. Methods of those
  classes (\<open>normal_at\<close>, \<open>get_barycentric_coord\<close>, \<open>get_triangles\<close>) are fields: whatever
  the class computes is a parameter of the development. Material and shader tag are
  optional because sky.py builds its spheres with \<open>None\<close> for both.
\<close>

record object =
  position :: vec3
  material :: "material option"
  shader_type :: "string option"
  normal_at :: "vec3 \<Rightarrow> vec3 option"

record sphere = object +
  radius :: real

record plane = object +
  n :: vec3

record triangle = plane +
  get_barycentric_coord :: "vec3 \<Rightarrow> real \<times> real"

record tetrahedron = object +
  get_triangles :: "triangle list"

definition ray_at :: "ray \<Rightarrow> real \<Rightarrow> vec3" where
  "ray_at r t = vadd (pr r) (smul t (nr r))"

definition intersect_plane :: "ray \<Rightarrow> 'a plane_scheme \<Rightarrow> real" where
  "intersect_plane r pl =
     (let dot_normals = dot (nr r) (n pl) in
      if dot_normals = 0 then
        (if dot (vsub (position pl) (pr r)) (n pl) = 0 then 0 else - 1)
      else
        (let t = dot (vsub (position pl) (pr r)) (n pl) / dot_normals in
         if t < 0 then - 1 else t))"

definition intersect_sphere :: "ray \<Rightarrow> 'a sphere_scheme \<Rightarrow> real" where
  "intersect_sphere r sp =
     (let pc = position sp;
          dif = vsub (pr r) pc;
          b = dot (nr r) dif;
          c = dot dif dif - (radius sp)\<^sup>2;
          discriminant = b\<^sup>2 - c
      in if b > 0 \<or> discriminant < 0 then - 1
         else - 1 * b - sqrt discriminant)"

definition intersect_triangle :: "ray \<Rightarrow> 'a triangle_scheme \<Rightarrow> real" where
  "intersect_triangle r tr =
     (let ray_t = intersect_plane r tr;
          p_in_plane = ray_at r ray_t;
          (s, t) = get_barycentric_coord tr p_in_plane
      in if \<not> (0 \<le> s \<and> s \<le> 1) \<or> \<not> (0 \<le> t \<and> t \<le> 1) \<or> \<not> (0 \<le> s + t \<and> s + t \<le> 1)
         then - 1 else ray_t)"

text \<open>
  \<open>np.inf\<close> is the only non-real value the minimum search holds; it is \<open>None\<close> here, and
  \<open>t < np.inf\<close> is true of every real \<open>t\<close>.
\<close>

fun below :: "real \<Rightarrow> real option \<Rightarrow> bool" where
  "below t None = True"
| "below t (Some m) = (t < m)"

fun tetrahedron_loop :: "ray \<Rightarrow> triangle list \<Rightarrow> real option \<Rightarrow> real option" where
  "tetrahedron_loop r [] min_t = min_t"
| "tetrahedron_loop r (tr # trs) min_t =
     (let t = intersect_triangle r tr in
      if 0 < t \<and> below t min_t then tetrahedron_loop r trs (Some t)
      else tetrahedron_loop r trs min_t)"

definition intersect_tetrahedron :: "ray \<Rightarrow> 'a tetrahedron_scheme \<Rightarrow> real" where
  "intersect_tetrahedron r th =
     (case tetrahedron_loop r (get_triangles th) None of
        None \<Rightarrow> - 1
      | Some min_t \<Rightarrow> min_t)"

text \<open>
  An object handed to \<open>Ray.intersect\<close> carries its class. The classes are taken as
  disjoint, apart from \<open>HollowSphere\<close> below, so that the order of the \<open>isinstance\<close>
  tests does not matter.
\<close>

datatype prim =
    Sphere sphere
  | Plane plane
  | Tetrahedron tetrahedron
  | Triangle triangle
  | HollowSphere sphere
  | Other object

text \<open>
  Modelled from the spec: the class \<open>HollowSphere\<close> is declared in object.py, which is
  missing. The spec has it reuse the sphere solver, that is, \<open>isinstance(obj, Sphere)\<close>
  holds of a hollow sphere.
\<close>

fun intersect :: "ray \<Rightarrow> prim \<Rightarrow> real" where
  "intersect r (Sphere obj) = intersect_sphere r obj"
| "intersect r (HollowSphere obj) = intersect_sphere r obj"
| "intersect r (Plane obj) = intersect_plane r obj"
| "intersect r (Tetrahedron obj) = intersect_tetrahedron r obj"
| "intersect r (Triangle obj) = intersect_triangle r obj"
| "intersect r (Other obj) = - 1"

text \<open>The attributes every scene object has, whatever its class.\<close>

definition as_object :: "'a object_scheme \<Rightarrow> object" where
  "as_object obj =
     \<lparr>position = position obj, material = material obj,
      shader_type = shader_type obj, normal_at = normal_at obj\<rparr>"

fun base :: "prim \<Rightarrow> object" where
  "base (Sphere obj) = as_object obj"
| "base (HollowSphere obj) = as_object obj"
| "base (Plane obj) = as_object obj"
| "base (Tetrahedron obj) = as_object obj"
| "base (Triangle obj) = as_object obj"
| "base (Other obj) = as_object obj"

section \<open>Modules and their names\<close>

text \<open>
  Two calls of the program go through a module attribute: \<open>shaders.hard_shadow\<close> in
  raytrace.py and \<open>utils.distance\<close> in sky.py. Python looks the name up in the module when
  the call is reached and raises \<open>AttributeError\<close> when the module does not bind it. A
  module is the list of the names its source binds at top level; the value a name would be
  bound to is a parameter of the caller, used only when the lookup succeeds.
\<close>

datatype py_error = AttributeError | ZeroDivisionError

type_synonym module = "string list"

definition getattr :: "module \<Rightarrow> string \<Rightarrow> 'a \<Rightarrow> py_error + 'a" where
  "getattr m name v = (if name \<in> set m then Inr v else Inl AttributeError)"

text \<open>The names bound by shaders.py and by utils.py, in source order.\<close>

definition shaders_module :: module where
  "shaders_module =
     [''np'', ''TYPE_DIFFUSE_LIGHT'', ''TYPE_DIFFUSE_COLORS'', ''TYPE_DIFF_SPECULAR'',
      ''TYPE_DIFF_SPEC_BORDER'', ''COLOR_FOR_LIGHT'', ''COLOR_FOR_BORDER'', ''DEFAULT_KS'',
      ''DEFAULT_THICKNESS'', ''diffuse_light'', ''diffuse_colors'',
      ''diffuse_with_specular'', ''diffuse_specular_border'']"

definition utils_module :: module where
  "utils_module = [''np'', ''normalize'', ''humanize_time'', ''degree2radians'']"

section \<open>Shaders (shaders.py)\<close>

definition TYPE_DIFFUSE_LIGHT :: string where
  "TYPE_DIFFUSE_LIGHT = ''diffuse_light''"

definition TYPE_DIFFUSE_COLORS :: string where
  "TYPE_DIFFUSE_COLORS = ''diffuse_colors''"

definition TYPE_DIFF_SPECULAR :: string where
  "TYPE_DIFF_SPECULAR = ''diffuse_with_specular''"

definition TYPE_DIFF_SPEC_BORDER :: string where
  "TYPE_DIFF_SPEC_BORDER = ''diffuse_specular_border''"

definition COLOR_FOR_LIGHT :: vec3 where
  "COLOR_FOR_LIGHT = Vec3 255 255 255"

definition COLOR_FOR_BORDER :: vec3 where
  "COLOR_FOR_BORDER = Vec3 185 185 185"

definition DEFAULT_KS :: real where
  "DEFAULT_KS = 8 / 10"

definition DEFAULT_THICKNESS :: real where
  "DEFAULT_THICKNESS = 7 / 10"

definition diffuse_light :: "vec3 \<Rightarrow> vec3 \<Rightarrow> real" where
  "diffuse_light nv l = (let diffuse_coef = dot nv l in max 0 diffuse_coef)"

definition diffuse_colors :: "vec3 \<Rightarrow> vec3 \<Rightarrow> vec3 \<Rightarrow> vec3 \<Rightarrow> vec3" where
  "diffuse_colors nv l dark light =
     (let diffuse_coef = dot nv l;
          t = max 0 diffuse_coef
      in vadd (smul t light) (smul (1 - t) dark))"

definition diffuse_with_specular ::
  "vec3 \<Rightarrow> vec3 \<Rightarrow> vec3 \<Rightarrow> vec3 \<Rightarrow> vec3 \<Rightarrow> real \<Rightarrow> vec3" where
  "diffuse_with_specular nv l eye dark light ks =
     (let n_dot_l = dot nv l;
          t = max 0 n_dot_l;
          color = vadd (smul t light) (smul (1 - t) dark);
          r = vadd (smul (- 1) l) (smul (2 * n_dot_l) nv);
          s = dot eye r;
          s = max 0 s;
          step_min = 73 / 100;
          step_max = 1;
          s = (s - step_min) / (step_max - step_min);
          s = (if s < 0 then 0 else if s > 1 then 1 else s);
          s = - 2 * s ^ 3 + 3 * s\<^sup>2
      in vadd (smul (1 - s * ks) color) (smul (s * ks) COLOR_FOR_LIGHT))"

text \<open>
  The border shader divides by \<open>step_max - step_min = 1 - thickness\<close>, which is zero at
  \<open>thickness = 1\<close>. A numpy float divided by zero raises nothing: the quotient is \<open>inf\<close>,
  \<open>-inf\<close> or \<open>nan\<close> by the sign of the numerator. The two comparisons that follow send
  \<open>inf\<close> to 1 and \<open>-inf\<close> to 0 and leave \<open>nan\<close>, which makes every channel of the colour
  \<open>nan\<close>: the result \<open>None\<close>.
\<close>

datatype np_float = Finite real | PosInf | NegInf | NaN

definition np_divide :: "real \<Rightarrow> real \<Rightarrow> np_float" where
  "np_divide a d =
     (if d \<noteq> 0 then Finite (a / d)
      else if 0 < a then PosInf
      else if a < 0 then NegInf
      else NaN)"

definition diffuse_specular_border ::
  "vec3 \<Rightarrow> vec3 \<Rightarrow> vec3 \<Rightarrow> vec3 \<Rightarrow> vec3 \<Rightarrow> real \<Rightarrow> real \<Rightarrow> vec3 option" where
  "diffuse_specular_border nv l eye dark light ks thickness =
     (let b = max 0 (1 - dot eye nv);
          step_min = thickness;
          step_max = 1;
          b = np_divide (b - step_min) (step_max - step_min);
          b = (case b of
                 Finite v \<Rightarrow> Some (if v < 0 then 0 else if v > 1 then 1 else v)
               | PosInf \<Rightarrow> Some 1
               | NegInf \<Rightarrow> Some 0
               | NaN \<Rightarrow> None);
          color = diffuse_with_specular nv l eye dark light ks
      in case b of
           None \<Rightarrow> None
         | Some b \<Rightarrow> Some (vadd (smul (1 - b) color) (smul b COLOR_FOR_BORDER)))"

section \<open>Shading, shadow and the traced ray (raytrace.py, utils.py)\<close>

text \<open>
  Modelled from the spec: constants.py is missing; the spec gives the two luminance presets as \<open>[15,15,15]/255\<close> and \<open>[240,240,240]/255\<close> and three colour channels.
\<close>

definition MAX_COLOR_VALUE :: real where
  "MAX_COLOR_VALUE = 255"

definition DARK_VALUE :: vec3 where
  "DARK_VALUE = vmap (\<lambda>v. v / MAX_COLOR_VALUE) (Vec3 15 15 15)"

definition LIGHT_VALUE :: vec3 where
  "LIGHT_VALUE = vmap (\<lambda>v. v / MAX_COLOR_VALUE) (Vec3 240 240 240)"

text \<open>A light, with the two queries of light.py the program calls as fields.\<close>

record light =
  get_l :: "vec3 \<Rightarrow> vec3"
  get_dist :: "vec3 \<Rightarrow> real"

definition normalize :: "vec3 \<Rightarrow> vec3" where
  "normalize arr =
     (let norm = sqrt (dot arr arr) in
      if norm = 0 then arr else vmap (\<lambda>v. v / norm) arr)"

text \<open>
  A scalar added to an array is added to each entry (\<open>bcast\<close>). \<open>np.clip\<close> and the cast to
  \<open>uint8\<close> work entry by entry; on \<open>[0, 255]\<close>, where the casts of the program happen, the
  cast drops the fraction. A \<open>uint8\<close> array is a vector with whole entries in that range.
  \<open>ndarray.round\<close> rounds a half to the even neighbour.
\<close>

definition bcast :: "real \<Rightarrow> vec3" where
  "bcast v = Vec3 v v v"

definition clip :: "real \<Rightarrow> real \<Rightarrow> vec3 \<Rightarrow> vec3" where
  "clip lo hi = vmap (\<lambda>v. min hi (max lo v))"

definition astype_uint8 :: "vec3 \<Rightarrow> vec3" where
  "astype_uint8 = vmap (\<lambda>v. of_int \<lfloor>v\<rfloor>)"

definition np_round :: "real \<Rightarrow> real" where
  "np_round v =
     (let f = \<lfloor>v\<rfloor>; d = v - of_int f in
      if d < 1 / 2 then of_int f
      else if 1 / 2 < d then of_int (f + 1)
      else if even f then of_int f else of_int (f + 1))"

text \<open>
  With an empty light list both averages divide the zero array by \<open>len(lights) = 0\<close>:
  numpy warns, raises nothing and yields \<open>nan\<close> in every channel, \<open>np.clip\<close> keeps it, and
  the cast of \<open>nan\<close> to \<open>uint8\<close> gives a byte the platform chooses. That byte is the
  parameter \<open>nan_u8\<close>.

  The loop over the lights ends in one of three ways: by the \<open>return\<close> inside it, by
  running out of lights with the sum of the colours, or with a sum that is \<open>nan\<close> in every
  channel. The last happens when a shader hands back a \<open>nan\<close> colour: the sum stays \<open>nan\<close>
  through the remaining lights, which neither return nor raise, since the normal and the
  material are those the loop has already read.
\<close>

datatype loop_exit = Return vec3 | Fallthrough vec3 | NaNs

fun compute_color_loop ::
  "vec3 \<Rightarrow> vec3 \<Rightarrow> prim \<Rightarrow> light list \<Rightarrow> vec3 \<Rightarrow> py_error + loop_exit" where
  "compute_color_loop ph eye obj [] final_color = Inr (Fallthrough final_color)"
| "compute_color_loop ph eye obj (lt # lights) final_color =
     (let l = get_l lt ph in
      case normal_at (base obj) ph of
        None \<Rightarrow> Inr (Return zeros3)
      | Some nh \<Rightarrow>
          (case material (base obj) of
             None \<Rightarrow> Inl AttributeError
           | Some mtl \<Rightarrow>
               (let dark = vmul DARK_VALUE (diffuse mtl);
                    light = vmul LIGHT_VALUE (diffuse mtl);
                    color =
                      (if shader_type (base obj) = Some TYPE_DIFFUSE_LIGHT
                         then Some (bcast (diffuse_light nh l))
                       else if shader_type (base obj) = Some TYPE_DIFFUSE_COLORS
                         then Some (diffuse_colors nh l dark light)
                       else if shader_type (base obj) = Some TYPE_DIFF_SPECULAR
                         then Some (diffuse_with_specular nh l eye dark light DEFAULT_KS)
                       else if shader_type (base obj) = Some TYPE_DIFF_SPEC_BORDER
                         then diffuse_specular_border nh l eye dark light
                                DEFAULT_KS DEFAULT_THICKNESS
                       else Some zeros3)
                in case color of
                     None \<Rightarrow> Inr NaNs
                   | Some color \<Rightarrow>
                       compute_color_loop ph eye obj lights (vadd final_color color))))"

definition compute_color ::
  "8 word \<Rightarrow> vec3 \<Rightarrow> vec3 \<Rightarrow> prim \<Rightarrow> light list \<Rightarrow> py_error + vec3" where
  "compute_color nan_u8 ph eye obj lights =
     (case compute_color_loop ph eye obj lights zeros3 of
        Inl e \<Rightarrow> Inl e
      | Inr (Return c) \<Rightarrow> Inr c
      | Inr NaNs \<Rightarrow> Inr (bcast (real (unat nan_u8)))
      | Inr (Fallthrough final_color) \<Rightarrow>
          if lights = [] then Inr (bcast (real (unat nan_u8)))
          else Inr (astype_uint8 (clip 0 MAX_COLOR_VALUE
                 (vmap (\<lambda>v. v / real (length lights)) final_color))))"

type_synonym hard_shadow = "vec3 \<Rightarrow> prim list \<Rightarrow> vec3 \<Rightarrow> real \<Rightarrow> vec3"

fun compute_shadow_loop ::
  "module \<Rightarrow> hard_shadow \<Rightarrow> vec3 \<Rightarrow> prim list \<Rightarrow> light list \<Rightarrow> vec3 \<Rightarrow> py_error + vec3" where
  "compute_shadow_loop shaders hs ph objects [] final_shadow = Inr final_shadow"
| "compute_shadow_loop shaders hs ph objects (lt # lights) final_shadow =
     (let l = get_l lt ph;
          dist_l = get_dist lt ph
      in case getattr shaders ''hard_shadow'' hs of
           Inl e \<Rightarrow> Inl e
         | Inr f \<Rightarrow>
             compute_shadow_loop shaders hs ph objects lights
               (vadd final_shadow (f ph objects l dist_l)))"

definition compute_shadow ::
  "module \<Rightarrow> hard_shadow \<Rightarrow> 8 word \<Rightarrow> vec3 \<Rightarrow> prim list \<Rightarrow> light list \<Rightarrow> py_error + vec3" where
  "compute_shadow shaders hs nan_u8 ph objects lights =
     (case compute_shadow_loop shaders hs ph objects lights zeros3 of
        Inl e \<Rightarrow> Inl e
      | Inr final_shadow \<Rightarrow>
          if lights = [] then Inr (bcast (real (unat nan_u8)))
          else Inr (astype_uint8 (clip 0 MAX_COLOR_VALUE
                 (vmap (\<lambda>v. v / real (length lights)) final_shadow))))"

text \<open>
  The search for the closest hit. \<open>tmin\<close> and \<open>obj_h\<close> are assigned together, so the pair is
  one value: \<open>None\<close> before the first assignment (\<open>tmin = np.inf\<close>, \<open>obj_h = None\<close>).
\<close>

fun raytrace_loop :: "ray \<Rightarrow> prim list \<Rightarrow> (real \<times> prim) option \<Rightarrow> (real \<times> prim) option" where
  "raytrace_loop r [] hit = hit"
| "raytrace_loop r (obj # objects) hit =
     (let t = intersect r obj in
      if 0 < t \<and> below t (map_option fst hit)
      then raytrace_loop r objects (Some (t, obj))
      else raytrace_loop r objects hit)"

text \<open>
  \<open>list.remove\<close> takes out the first element equal to \<open>obj_h\<close>, as \<open>remove1\<close> does. An
  object is taken to be true in \<open>if obj_h:\<close>, as instances of a class without \<open>__bool__\<close>
  and \<open>__len__\<close> are.
\<close>

definition raytrace ::
  "module \<Rightarrow> hard_shadow \<Rightarrow> 8 word \<Rightarrow> ray \<Rightarrow> vec3 \<Rightarrow> prim list \<Rightarrow> light list
     \<Rightarrow> py_error + vec3" where
  "raytrace shaders hs nan_u8 r camera_pos objects lights =
     (case raytrace_loop r objects None of
        Some (tmin, obj_h) \<Rightarrow>
          (let ph = ray_at r tmin;
               eye = normalize (vsub camera_pos ph)
           in case compute_color nan_u8 ph eye obj_h lights of
                Inl e \<Rightarrow> Inl e
              | Inr color \<Rightarrow>
                  (let objects_to_check = remove1 obj_h objects in
                   case compute_shadow shaders hs nan_u8 ph objects_to_check lights of
                     Inl e \<Rightarrow> Inl e
                   | Inr shadow \<Rightarrow>
                       Inr (astype_uint8 (vmap np_round
                              (vmul color (vmap (\<lambda>v. v / MAX_COLOR_VALUE) shadow))))))
      | None \<Rightarrow> Inr (Vec3 0 0 0))"

section \<open>Atmosphere (sky.py)\<close>

text \<open>Division is true division throughout, as on floats.\<close>

definition EARTH_RADIUS :: real where
  "EARTH_RADIUS = 6378 * 1000"

definition DEFAULT_CENTER :: vec3 where
  "DEFAULT_CENTER = Vec3 0 (- EARTH_RADIUS) 0"

definition DEFAULT_ATMOSPHERE_HEIGHT :: real where
  "DEFAULT_ATMOSPHERE_HEIGHT = EARTH_RADIUS * (25 / 1000)"

definition DEFAULT_SUN_DIRECTION :: vec3 where
  "DEFAULT_SUN_DIRECTION = normalize (Vec3 0 (15 / 100) 1)"

definition DEFAULT_AVG_DENSITY_HEIGHT :: real where
  "DEFAULT_AVG_DENSITY_HEIGHT = (25 / 100) * DEFAULT_ATMOSPHERE_HEIGHT"

definition IN_SCATTER_SAMPLES :: nat where
  "IN_SCATTER_SAMPLES = 10"

definition OPTICAL_DEPTH_SAMPLES :: nat where
  "OPTICAL_DEPTH_SAMPLES = 10"

definition WAVE_LENGTHS :: vec3 where
  "WAVE_LENGTHS = Vec3 650 510 445"

definition SCATTERING_SCALE :: real where
  "SCATTERING_SCALE = 1"

definition SCATTERING_COEFFICIENTS :: vec3 where
  "SCATTERING_COEFFICIENTS = vmap (\<lambda>w. (1 / w ^ 4) * SCATTERING_SCALE) WAVE_LENGTHS"

definition DENSITY_FALLOFF :: real where
  "DENSITY_FALLOFF = 4"

definition SUN_COLOR :: vec3 where
  "SUN_COLOR = Vec3 1289 1395 1234"

text \<open>
  The attribute \<open>radius\<close> of the sky dome is the field \<open>sky_radius\<close>: \<open>radius\<close> is taken
  by the spheres.
\<close>

record skydome =
  center :: vec3
  sky_radius :: real
  sun_direction :: vec3
  atmosphere_height :: real
  avg_density_height :: real
  planet_obj :: prim
  atmosphere_obj :: prim

text \<open>
  The constructor. \<open>sphere_normal\<close> stands for the method \<open>normal_at\<close> that the classes
  \<open>Sphere\<close> and \<open>HollowSphere\<close> of object.py give their instances.
\<close>

definition SkyDome ::
  "(vec3 \<Rightarrow> real \<Rightarrow> vec3 \<Rightarrow> vec3 option) \<Rightarrow> vec3 \<Rightarrow> real \<Rightarrow> vec3 \<Rightarrow> real \<Rightarrow> real \<Rightarrow> skydome" where
  "SkyDome sphere_normal c rad sun height avg =
     \<lparr>center = c, sky_radius = rad, sun_direction = sun, atmosphere_height = height,
      avg_density_height = avg,
      planet_obj = Sphere
        \<lparr>position = c, material = None, shader_type = None,
         normal_at = sphere_normal c rad, radius = rad\<rparr>,
      atmosphere_obj = HollowSphere
        \<lparr>position = c, material = None, shader_type = None,
         normal_at = sphere_normal c (rad + height), radius = rad + height\<rparr>\<rparr>"

definition phase_function :: "vec3 \<Rightarrow> vec3 \<Rightarrow> real" where
  "phase_function v1 v2 = (3 / 4) * (1 + (dot v1 v2)\<^sup>2)"

text \<open>
  \<open>np.random\<close> is a stream of numbers in \<open>[0, 1)\<close>; \<open>random_sample k\<close> takes the next \<open>k\<close> of
  them and leaves the rest.
\<close>

type_synonym rng = "nat \<Rightarrow> real"

definition random_sample :: "nat \<Rightarrow> rng \<Rightarrow> real list \<times> rng" where
  "random_sample k g = (map g [0..<k], (\<lambda>i. g (i + k)))"

text \<open>
  \<open>density_at_point\<close> calls \<open>utils.distance\<close>: \<open>utils\<close> is the module, \<open>dfn\<close> what the name is
  bound to when the module binds it. A zero \<open>atmosphere_height\<close> ends the computation with
  no number (\<open>ZeroDivisionError\<close> on Python floats).
\<close>

type_synonym distance = "vec3 \<Rightarrow> vec3 \<Rightarrow> real"

definition density_at_point :: "module \<Rightarrow> distance \<Rightarrow> skydome \<Rightarrow> vec3 \<Rightarrow> py_error + real" where
  "density_at_point utils dfn sky p =
     (case getattr utils ''distance'' dfn of
        Inl e \<Rightarrow> Inl e
      | Inr f \<Rightarrow>
          (let height = f p (center sky) - sky_radius sky in
           if atmosphere_height sky = 0 then Inl ZeroDivisionError
           else
             (let normalized_height = height / atmosphere_height sky;
                  density = exp (- normalized_height * DENSITY_FALLOFF)
                              * (1 - normalized_height)
              in Inr density)))"

text \<open>
  The loops run over \<open>range(n)\<close> and read \<open>randoms[i]\<close>: they run over the pairs
  \<open>(i, randoms[i])\<close>.
\<close>

fun optical_depth_loop ::
  "module \<Rightarrow> distance \<Rightarrow> skydome \<Rightarrow> vec3 \<Rightarrow> vec3 \<Rightarrow> real \<Rightarrow> nat \<Rightarrow> (nat \<times> real) list
     \<Rightarrow> real \<Rightarrow> py_error + real" where
  "optical_depth_loop utils dfn sky p direction distance num_samples [] optical_depth =
     Inr optical_depth"
| "optical_depth_loop utils dfn sky p direction distance num_samples ((i, rnd) # rest)
     optical_depth =
     (let current_distance = (real i + rnd) * (distance / real num_samples);
          sample_point = vadd p (smul current_distance direction)
      in case density_at_point utils dfn sky sample_point of
           Inl e \<Rightarrow> Inl e
         | Inr sample_density \<Rightarrow>
             optical_depth_loop utils dfn sky p direction distance num_samples rest
               (optical_depth + sample_density * current_distance))"

definition optical_depth ::
  "module \<Rightarrow> distance \<Rightarrow> skydome \<Rightarrow> vec3 \<Rightarrow> vec3 \<Rightarrow> real \<Rightarrow> nat \<Rightarrow> rng
     \<Rightarrow> py_error + real \<times> rng" where
  "optical_depth utils dfn sky p direction distance num_samples g =
     (let (randoms, g') = random_sample num_samples g in
      case optical_depth_loop utils dfn sky p direction distance num_samples
             (zip [0..<num_samples] randoms) 0 of
        Inl e \<Rightarrow> Inl e
      | Inr od \<Rightarrow> Inr (od, g'))"

definition out_scattering ::
  "module \<Rightarrow> distance \<Rightarrow> skydome \<Rightarrow> vec3 \<Rightarrow> vec3 \<Rightarrow> real \<Rightarrow> nat \<Rightarrow> rng
     \<Rightarrow> py_error + vec3 \<times> rng" where
  "out_scattering utils dfn sky p direction distance num_samples g =
     (case optical_depth utils dfn sky p direction distance num_samples g of
        Inl e \<Rightarrow> Inl e
      | Inr (od, g') \<Rightarrow> Inr (smul (4 * pi * od) SCATTERING_COEFFICIENTS, g'))"

text \<open>
  The test \<open>0 < t_to_planet < t_to_atmosphere\<close> of both marches, for the sample at
  \<open>distance\<close> along the view ray.
\<close>

definition in_shadow :: "skydome \<Rightarrow> ray \<Rightarrow> real \<Rightarrow> bool" where
  "in_shadow sky r distance =
     (let sample_point = ray_at r distance;
          sun_ray = \<lparr>pr = sample_point, nr = sun_direction sky\<rparr>;
          t_to_atmosphere = intersect sun_ray (atmosphere_obj sky);
          t_to_planet = intersect sun_ray (planet_obj sky)
      in 0 < t_to_planet \<and> t_to_planet < t_to_atmosphere)"

definition in_scattering_step ::
  "module \<Rightarrow> distance \<Rightarrow> skydome \<Rightarrow> ray \<Rightarrow> real \<Rightarrow> nat \<Rightarrow> nat \<Rightarrow> real \<Rightarrow> vec3 \<times> rng
     \<Rightarrow> py_error + vec3 \<times> rng" where
  "in_scattering_step utils dfn sky r dist_to_atmosphere view_samples i rnd st =
     (case st of (transmittance, g) \<Rightarrow>
      let distance = (dist_to_atmosphere / real view_samples) * (real i + rnd);
          sample_point = ray_at r distance;
          sun_ray = \<lparr>pr = sample_point, nr = sun_direction sky\<rparr>;
          t_to_atmosphere = intersect sun_ray (atmosphere_obj sky)
      in if in_shadow sky r distance then Inr (transmittance, g)
         else
           (case out_scattering utils dfn sky (pr sun_ray) (nr sun_ray) t_to_atmosphere
                   OPTICAL_DEPTH_SAMPLES g of
              Inl e \<Rightarrow> Inl e
            | Inr (out_sun, g1) \<Rightarrow>
                (case out_scattering utils dfn sky sample_point (vneg (nr r)) distance
                        OPTICAL_DEPTH_SAMPLES g1 of
                   Inl e \<Rightarrow> Inl e
                 | Inr (out_view, g2) \<Rightarrow>
                     (case density_at_point utils dfn sky sample_point of
                        Inl e \<Rightarrow> Inl e
                      | Inr current_density \<Rightarrow>
                          Inr (vadd transmittance
                                 (smul (phase_function (nr sun_ray) (vneg (nr r)))
                                    (smul (current_density * distance)
                                       (vmap exp (vneg (vadd out_sun out_view))))),
                               g2)))))"

fun in_scattering_loop ::
  "module \<Rightarrow> distance \<Rightarrow> skydome \<Rightarrow> ray \<Rightarrow> real \<Rightarrow> nat \<Rightarrow> (nat \<times> real) list \<Rightarrow> vec3 \<times> rng
     \<Rightarrow> py_error + vec3 \<times> rng" where
  "in_scattering_loop utils dfn sky r dist_to_atmosphere view_samples [] st = Inr st"
| "in_scattering_loop utils dfn sky r dist_to_atmosphere view_samples ((i, rnd) # rest) st =
     (case in_scattering_step utils dfn sky r dist_to_atmosphere view_samples i rnd st of
        Inl e \<Rightarrow> Inl e
      | Inr st' \<Rightarrow>
          in_scattering_loop utils dfn sky r dist_to_atmosphere view_samples rest st')"

definition in_scattering ::
  "module \<Rightarrow> distance \<Rightarrow> skydome \<Rightarrow> ray \<Rightarrow> nat \<Rightarrow> rng \<Rightarrow> py_error + vec3 \<times> rng" where
  "in_scattering utils dfn sky r view_samples g =
     (let (randoms, g0) = random_sample view_samples g;
          dist_to_atmosphere = intersect r (atmosphere_obj sky)
      in case in_scattering_loop utils dfn sky r dist_to_atmosphere view_samples
                (zip [0..<view_samples] randoms) (zeros3, g0) of
           Inl e \<Rightarrow> Inl e
         | Inr (transmittance, g') \<Rightarrow>
             Inr (vmul (vmul SUN_COLOR SCATTERING_COEFFICIENTS) transmittance, g'))"

definition light_at_ray_step ::
  "module \<Rightarrow> distance \<Rightarrow> skydome \<Rightarrow> ray \<Rightarrow> real \<Rightarrow> nat \<Rightarrow> nat \<Rightarrow> real \<Rightarrow> vec3 \<times> rng
     \<Rightarrow> py_error + vec3 \<times> rng" where
  "light_at_ray_step utils dfn sky r dist_to_atmosphere view_samples i rnd st =
     (case st of (light, g) \<Rightarrow>
      let distance = (dist_to_atmosphere / real view_samples) * (real i + rnd);
          sample_point = ray_at r distance;
          sun_ray = \<lparr>pr = sample_point, nr = sun_direction sky\<rparr>;
          t_to_atmosphere = intersect sun_ray (atmosphere_obj sky)
      in if in_shadow sky r distance then Inr (light, g)
         else
           (case optical_depth utils dfn sky (pr sun_ray) (nr sun_ray) t_to_atmosphere
                   OPTICAL_DEPTH_SAMPLES g of
              Inl e \<Rightarrow> Inl e
            | Inr (sun_ray_optical_depth, g1) \<Rightarrow>
                (case optical_depth utils dfn sky sample_point (vneg (nr r)) distance
                        OPTICAL_DEPTH_SAMPLES g1 of
                   Inl e \<Rightarrow> Inl e
                 | Inr (view_ray_optical_depth, g2) \<Rightarrow>
                     (let transmittance =
                            vmap exp (smul (- (sun_ray_optical_depth + view_ray_optical_depth))
                                        SCATTERING_COEFFICIENTS);
                          segment_size = (dist_to_atmosphere / real view_samples) * rnd
                      in case density_at_point utils dfn sky sample_point of
                           Inl e \<Rightarrow> Inl e
                         | Inr sample_density \<Rightarrow>
                             Inr (vadd light
                                    (smul (sample_density * segment_size) transmittance),
                                  g2)))))"

fun light_at_ray_loop ::
  "module \<Rightarrow> distance \<Rightarrow> skydome \<Rightarrow> ray \<Rightarrow> real \<Rightarrow> nat \<Rightarrow> (nat \<times> real) list \<Rightarrow> vec3 \<times> rng
     \<Rightarrow> py_error + vec3 \<times> rng" where
  "light_at_ray_loop utils dfn sky r dist_to_atmosphere view_samples [] st = Inr st"
| "light_at_ray_loop utils dfn sky r dist_to_atmosphere view_samples ((i, rnd) # rest) st =
     (case light_at_ray_step utils dfn sky r dist_to_atmosphere view_samples i rnd st of
        Inl e \<Rightarrow> Inl e
      | Inr st' \<Rightarrow>
          light_at_ray_loop utils dfn sky r dist_to_atmosphere view_samples rest st')"

text \<open>
  The last steps of \<open>light_at_ray\<close> divide the array by the planet radius and clip it to
  \<open>[0, 1]\<close>. Dividing an array by zero raises nothing: an entry becomes \<open>inf\<close>, \<open>-inf\<close> or
  \<open>nan\<close> by its sign, and the clip makes that 1, 0 or \<open>nan\<close>. \<open>None\<close> is \<open>nan\<close>.
\<close>

definition divide_clip :: "real \<Rightarrow> real \<Rightarrow> real option" where
  "divide_clip d v =
     (if d \<noteq> 0 then Some (min 1 (max 0 (v / d)))
      else if 0 < v then Some 1
      else if v < 0 then Some 0
      else None)"

fun divide_clip3 :: "real \<Rightarrow> vec3 \<Rightarrow> real option \<times> real option \<times> real option" where
  "divide_clip3 d (Vec3 a b c) = (divide_clip d a, divide_clip d b, divide_clip d c)"

definition light_at_ray ::
  "module \<Rightarrow> distance \<Rightarrow> skydome \<Rightarrow> ray \<Rightarrow> nat \<Rightarrow> rng
     \<Rightarrow> py_error + (real option \<times> real option \<times> real option) \<times> rng" where
  "light_at_ray utils dfn sky r view_samples g =
     (let light = zeros3;
          (randoms, g0) = random_sample view_samples g;
          dist_to_atmosphere = intersect r (atmosphere_obj sky)
      in case light_at_ray_loop utils dfn sky r dist_to_atmosphere view_samples
                (zip [0..<view_samples] randoms) (light, g0) of
           Inl e \<Rightarrow> Inl e
         | Inr (light, g') \<Rightarrow>
             Inr (divide_clip3 (sky_radius sky) (vmul light SCATTERING_COEFFICIENTS), g'))"

text \<open>
  The sample step of \<open>light_at_ray\<close> as the spec words it: the segment weight is the
  jittered distance \<open>(i + uniformRandom) \<sqdot> segmentLength / N\<close> of the optical-depth
  quadrature. Everything else is the step of the source.
\<close>

definition light_at_ray_step_spec ::
  "module \<Rightarrow> distance \<Rightarrow> skydome \<Rightarrow> ray \<Rightarrow> real \<Rightarrow> nat \<Rightarrow> nat \<Rightarrow> real \<Rightarrow> vec3 \<times> rng
     \<Rightarrow> py_error + vec3 \<times> rng" where
  "light_at_ray_step_spec utils dfn sky r dist_to_atmosphere view_samples i rnd st =
     (case st of (light, g) \<Rightarrow>
      let distance = (dist_to_atmosphere / real view_samples) * (real i + rnd);
          sample_point = ray_at r distance;
          sun_ray = \<lparr>pr = sample_point, nr = sun_direction sky\<rparr>;
          t_to_atmosphere = intersect sun_ray (atmosphere_obj sky)
      in if in_shadow sky r distance then Inr (light, g)
         else
           (case optical_depth utils dfn sky (pr sun_ray) (nr sun_ray) t_to_atmosphere
                   OPTICAL_DEPTH_SAMPLES g of
              Inl e \<Rightarrow> Inl e
            | Inr (sun_optical_depth, g1) \<Rightarrow>
                (case optical_depth utils dfn sky sample_point (vneg (nr r)) distance
                        OPTICAL_DEPTH_SAMPLES g1 of
                   Inl e \<Rightarrow> Inl e
                 | Inr (view_optical_depth, g2) \<Rightarrow>
                     (let segment_weight =
                            (real i + rnd) * (dist_to_atmosphere / real view_samples)
                      in case density_at_point utils dfn sky sample_point of
                           Inl e \<Rightarrow> Inl e
                         | Inr density \<Rightarrow>
                             Inr (vadd light
                                    (smul (density * segment_weight)
                                       (vmap exp (smul (- (sun_optical_depth + view_optical_depth))
                                                    SCATTERING_COEFFICIENTS))),
                                  g2)))))"

section \<open>Geometry of a sphere\<close>

definition on_sphere :: "'a sphere_scheme \<Rightarrow> vec3 \<Rightarrow> bool" where
  "on_sphere sp p = (dot (vsub p (position sp)) (vsub p (position sp)) = (radius sp)\<^sup>2)"

section \<open>Example objects\<close>

text \<open>
  Objects for the concrete instances below. The sphere and the plane have the geometry of
  \<open>setup_scene\<close> in main.py; their normals are left undefined where they play no part.
\<close>

definition example_sphere :: "vec3 \<Rightarrow> real \<Rightarrow> sphere" where
  "example_sphere pc rad =
     \<lparr>position = pc, material = None, shader_type = None,
      normal_at = (\<lambda>p. None), radius = rad\<rparr>"

definition example_plane :: "vec3 \<Rightarrow> vec3 \<Rightarrow> plane" where
  "example_plane pt nrm =
     \<lparr>position = pt, material = None, shader_type = None,
      normal_at = (\<lambda>p. Some nrm), n = nrm\<rparr>"

text \<open>
  The triangle with corners \<open>(0,0,0)\<close>, \<open>(1,0,0)\<close>, \<open>(0,1,0)\<close>: the barycentric
  coordinates of a point of its plane, relative to the two edges from the first corner,
  are the point's \<open>x\<close> and \<open>y\<close>.
\<close>

definition example_triangle :: triangle where
  "example_triangle =
     \<lparr>position = Vec3 0 0 0, material = None, shader_type = None,
      normal_at = (\<lambda>p. Some (Vec3 0 0 1)), n = Vec3 0 0 1,
      get_barycentric_coord = (\<lambda>p. case p of Vec3 a b c \<Rightarrow> (a, b))\<rparr>"

text \<open>A point light: the unit vector and the distance from a surface point to it.\<close>

definition example_light :: "vec3 \<Rightarrow> light" where
  "example_light pos =
     \<lparr>get_l = (\<lambda>p. normalize (vsub pos p)),
      get_dist = (\<lambda>p. sqrt (dot (vsub pos p) (vsub pos p)))\<rparr>"

text \<open>
  A scene for the ray from the origin along \<open>+z\<close>: the plane of main.py, which that ray
  never meets, a sphere entered at 175, the sphere of main.py, entered at 75, and a second
  sphere of the same geometry with another shader tag.
\<close>

definition example_scene :: "prim list" where
  "example_scene =
     [Plane (example_plane (Vec3 0 (- 25) 0) (Vec3 0 1 0)),
      Sphere (example_sphere (Vec3 0 0 200) 25),
      Sphere (example_sphere (Vec3 0 0 100) 25),
      Sphere ((example_sphere (Vec3 0 0 100) 25)\<lparr>shader_type := Some TYPE_DIFFUSE_LIGHT\<rparr>)]"

text \<open>
  The distance \<open>utils.distance\<close> would be expected to compute, the sky dome with the
  default arguments of sky.py, and a small one: a planet of radius 1 at the origin under
  an atmosphere of height 1, the sun along \<open>+y\<close>.
\<close>

definition example_distance :: distance where
  "example_distance a b = sqrt (dot (vsub a b) (vsub a b))"

definition example_sky :: skydome where
  "example_sky = SkyDome (\<lambda>c rad p. None) DEFAULT_CENTER EARTH_RADIUS DEFAULT_SUN_DIRECTION
     DEFAULT_ATMOSPHERE_HEIGHT DEFAULT_AVG_DENSITY_HEIGHT"

definition unit_sky :: skydome where
  "unit_sky = SkyDome (\<lambda>c rad p. None) (Vec3 0 0 0) 1 (Vec3 0 1 0) 1 (1 / 4)"

text \<open>
  A view ray in the small sky: from half way up the atmosphere straight down. The sphere
  solver puts the atmosphere boundary at \<open>-1/2\<close> along it.
\<close>

definition example_view :: ray where
  "example_view = \<lparr>pr = Vec3 0 (3 / 2) 0, nr = Vec3 0 (- 1) 0\<rparr>"

section \<open>Properties of the intersection routines\<close>

subsection \<open>Sphere\<close>

lemma sqrt_625: "sqrt 625 = 25"
  by (rule real_sqrt_unique) simp_all

lemma sqrt_100: "sqrt 100 = 10"
  by (rule real_sqrt_unique) simp_all

lemma ray_sphere_quadratic:
  "dot (vsub (ray_at r t) pc) (vsub (ray_at r t) pc) =
     t\<^sup>2 * dot (nr r) (nr r) + 2 * t * dot (nr r) (vsub (pr r) pc)
       + dot (vsub (pr r) pc) (vsub (pr r) pc)"
  by (cases "pr r"; cases "nr r"; cases pc)
     (simp add: ray_at_def power2_eq_square algebra_simps)

lemma on_sphere_unit:
  assumes "dot (nr r) (nr r) = 1"
  shows "on_sphere sp (ray_at r t) \<longleftrightarrow>
     (t + dot (nr r) (vsub (pr r) (position sp)))\<^sup>2 =
       (dot (nr r) (vsub (pr r) (position sp)))\<^sup>2 -
       (dot (vsub (pr r) (position sp)) (vsub (pr r) (position sp)) - (radius sp)\<^sup>2)"
  unfolding on_sphere_def ray_sphere_quadratic assms
  by (auto simp: power2_eq_square algebra_simps)

lemma near_root_pos:
  fixes b c :: real
  assumes "b \<le> 0" "0 < c" "0 \<le> b\<^sup>2 - c"
  shows "0 < - b - sqrt (b\<^sup>2 - c)"
proof -
  have "b\<^sup>2 - c < b\<^sup>2" using assms by simp
  then have "sqrt (b\<^sup>2 - c) < sqrt (b\<^sup>2)" by (rule real_sqrt_less_mono)
  also have "sqrt (b\<^sup>2) = \<bar>b\<bar>" by (rule real_sqrt_abs)
  also have "\<bar>b\<bar> = - b" using assms by simp
  finally show ?thesis by simp
qed

lemma near_root_least:
  fixes b d t :: real
  assumes "(t + b)\<^sup>2 = d"
  shows "- b - sqrt d \<le> t"
proof -
  have "sqrt d = \<bar>t + b\<bar>" using assms by (metis real_sqrt_abs)
  then show ?thesis by linarith
qed

lemma no_root_away:
  fixes b c t :: real
  assumes "0 < b" "0 < c" "0 < t"
  shows "(t + b)\<^sup>2 \<noteq> b\<^sup>2 - c"
proof -
  have "b\<^sup>2 - c < b\<^sup>2" using assms by simp
  also have "b\<^sup>2 < (t + b)\<^sup>2"
    using assms by (simp add: power2_eq_square algebra_simps add_pos_pos)
  finally show ?thesis by simp
qed

text \<open>
  C1, as stated, fails: the routine hands back the near root whatever its sign. A ray that
  starts at the centre of a sphere of radius 2 gets \<open>-2\<close>, which is neither strictly
  positive nor the sentinel.
\<close>

theorem intersect_sphere_inside_counterexample:
  "intersect_sphere \<lparr>pr = Vec3 0 0 0, nr = Vec3 0 0 1\<rparr> (example_sphere (Vec3 0 0 0) 2) = - 2"
proof -
  have "sqrt 4 = 2" by (rule real_sqrt_unique) simp_all
  then show ?thesis by (simp add: intersect_sphere_def example_sphere_def)
qed

text \<open>
  C1, amended. With \<open>b = dot(D, O - C)\<close> and \<open>c = |O - C|\<^sup>2 - r\<^sup>2\<close>, the routine returns
  \<open>-1\<close> when \<open>b > 0\<close> or \<open>b\<^sup>2 - c < 0\<close> and the near root \<open>-b - sqrt(b\<^sup>2 - c)\<close> otherwise.
  When the ray origin is strictly outside the sphere (\<open>c > 0\<close>) the result is \<open>-1\<close> or
  strictly positive. When moreover the direction has unit length, a result of \<open>-1\<close> means
  that the ray meets the sphere at no \<open>t > 0\<close>, and a positive result is the smallest
  \<open>t > 0\<close> at which the ray is on the sphere.
\<close>

theorem intersect_sphere_outside:
  fixes r :: ray and sp :: "'a sphere_scheme"
  defines "b \<equiv> dot (nr r) (vsub (pr r) (position sp))"
  defines "c \<equiv> dot (vsub (pr r) (position sp)) (vsub (pr r) (position sp)) - (radius sp)\<^sup>2"
  shows "(b > 0 \<or> b\<^sup>2 - c < 0 \<longrightarrow> intersect_sphere r sp = - 1) \<and>
         (\<not> (b > 0 \<or> b\<^sup>2 - c < 0) \<longrightarrow> intersect_sphere r sp = - b - sqrt (b\<^sup>2 - c)) \<and>
         (0 < c \<longrightarrow> intersect_sphere r sp = - 1 \<or> 0 < intersect_sphere r sp) \<and>
         (0 < c \<and> dot (nr r) (nr r) = 1 \<longrightarrow>
            (intersect_sphere r sp = - 1 \<and> (\<forall>t>0. \<not> on_sphere sp (ray_at r t))) \<or>
            (0 < intersect_sphere r sp \<and> on_sphere sp (ray_at r (intersect_sphere r sp)) \<and>
             (\<forall>t>0. on_sphere sp (ray_at r t) \<longrightarrow> intersect_sphere r sp \<le> t)))"
proof (intro conjI impI)
  show "b > 0 \<or> b\<^sup>2 - c < 0 \<Longrightarrow> intersect_sphere r sp = - 1"
    by (auto simp: intersect_sphere_def Let_def b_def c_def)
  show "\<not> (b > 0 \<or> b\<^sup>2 - c < 0) \<Longrightarrow> intersect_sphere r sp = - b - sqrt (b\<^sup>2 - c)"
    by (auto simp: intersect_sphere_def Let_def b_def c_def)
  show "intersect_sphere r sp = - 1 \<or> 0 < intersect_sphere r sp" if "0 < c"
  proof (cases "b > 0 \<or> b\<^sup>2 - c < 0")
    case True
    then show ?thesis by (auto simp: intersect_sphere_def Let_def b_def c_def)
  next
    case False
    then have "intersect_sphere r sp = - b - sqrt (b\<^sup>2 - c)"
      by (auto simp: intersect_sphere_def Let_def b_def c_def)
    moreover have "0 < - b - sqrt (b\<^sup>2 - c)"
      using False that by (intro near_root_pos) simp_all
    ultimately show ?thesis by simp
  qed
next
  assume h: "0 < c \<and> dot (nr r) (nr r) = 1"
  then have c: "0 < c" and u: "dot (nr r) (nr r) = 1" by simp_all
  have on: "on_sphere sp (ray_at r t) \<longleftrightarrow> (t + b)\<^sup>2 = b\<^sup>2 - c" for t
    using on_sphere_unit [OF u, of sp t] by (simp add: b_def c_def)
  show "(intersect_sphere r sp = - 1 \<and> (\<forall>t>0. \<not> on_sphere sp (ray_at r t))) \<or>
        (0 < intersect_sphere r sp \<and> on_sphere sp (ray_at r (intersect_sphere r sp)) \<and>
         (\<forall>t>0. on_sphere sp (ray_at r t) \<longrightarrow> intersect_sphere r sp \<le> t))"
  proof (cases "b > 0 \<or> b\<^sup>2 - c < 0")
    case True
    then have res: "intersect_sphere r sp = - 1"
      by (auto simp: intersect_sphere_def Let_def b_def c_def)
    have "\<not> on_sphere sp (ray_at r t)" if "0 < t" for t
    proof (cases "b > 0")
      case True
      then show ?thesis using no_root_away [OF True c that] on by simp
    next
      case False
      with \<open>b > 0 \<or> b\<^sup>2 - c < 0\<close> have "b\<^sup>2 - c < 0" by simp
      moreover have "0 \<le> (t + b)\<^sup>2" by (rule zero_le_power2)
      ultimately have "(t + b)\<^sup>2 \<noteq> b\<^sup>2 - c" by linarith
      then show ?thesis by (simp add: on)
    qed
    with res show ?thesis by simp
  next
    case False
    then have b: "b \<le> 0" and d: "0 \<le> b\<^sup>2 - c" by simp_all
    from False have res: "intersect_sphere r sp = - b - sqrt (b\<^sup>2 - c)"
      by (auto simp: intersect_sphere_def Let_def b_def c_def)
    have pos: "0 < - b - sqrt (b\<^sup>2 - c)" by (rule near_root_pos [OF b c d])
    have hit: "on_sphere sp (ray_at r (- b - sqrt (b\<^sup>2 - c)))"
      using d by (simp add: on)
    have least: "- b - sqrt (b\<^sup>2 - c) \<le> t" if "on_sphere sp (ray_at r t)" for t
      using that near_root_least [of t b "b\<^sup>2 - c"] by (simp add: on)
    show ?thesis using pos hit least by (simp add: res)
  qed
qed

text \<open>
  The amended statement at the sphere of main.py (centre \<open>(0,0,100)\<close>, radius 25): the ray
  along \<open>+z\<close> enters at 75, a point of the sphere, before it leaves at 125; the ray along
  \<open>-z\<close> gets the sentinel and is not on the sphere at \<open>t = 75\<close>.
\<close>

theorem intersect_sphere_outside_witness:
  "intersect_sphere \<lparr>pr = Vec3 0 0 0, nr = Vec3 0 0 1\<rparr>
      (example_sphere (Vec3 0 0 100) 25) = 75 \<and>
   on_sphere (example_sphere (Vec3 0 0 100) 25)
      (ray_at \<lparr>pr = Vec3 0 0 0, nr = Vec3 0 0 1\<rparr> 75) \<and>
   on_sphere (example_sphere (Vec3 0 0 100) 25)
      (ray_at \<lparr>pr = Vec3 0 0 0, nr = Vec3 0 0 1\<rparr> 125) \<and>
   intersect_sphere \<lparr>pr = Vec3 0 0 0, nr = Vec3 0 0 (- 1)\<rparr>
      (example_sphere (Vec3 0 0 100) 25) = - 1 \<and>
   \<not> on_sphere (example_sphere (Vec3 0 0 100) 25)
      (ray_at \<lparr>pr = Vec3 0 0 0, nr = Vec3 0 0 (- 1)\<rparr> 75)"
proof -
  let ?S = "example_sphere (Vec3 0 0 100) 25"
  let ?R = "\<lparr>pr = Vec3 0 0 0, nr = Vec3 0 0 1\<rparr>"
  let ?R' = "\<lparr>pr = Vec3 0 0 0, nr = Vec3 0 0 (- 1)\<rparr>"
  have towards: "intersect_sphere ?R ?S = 75"
    using intersect_sphere_outside [of ?R ?S]
    by (simp add: example_sphere_def sqrt_625)
  have away: "intersect_sphere ?R' ?S = - 1"
    using intersect_sphere_outside [of ?R' ?S]
    by (simp add: example_sphere_def)
  have "0 < dot (vsub (pr ?R) (position ?S)) (vsub (pr ?R) (position ?S)) - (radius ?S)\<^sup>2
          \<and> dot (nr ?R) (nr ?R) = 1"
    by (simp add: example_sphere_def)
  with intersect_sphere_outside [of ?R ?S]
  have "(intersect_sphere ?R ?S = - 1 \<and> (\<forall>t>0. \<not> on_sphere ?S (ray_at ?R t))) \<or>
        (0 < intersect_sphere ?R ?S \<and> on_sphere ?S (ray_at ?R (intersect_sphere ?R ?S)) \<and>
         (\<forall>t>0. on_sphere ?S (ray_at ?R t) \<longrightarrow> intersect_sphere ?R ?S \<le> t))"
    by blast
  then have entry: "on_sphere ?S (ray_at ?R 75)"
    unfolding towards by simp
  have exit: "on_sphere ?S (ray_at ?R 125)"
    by (simp add: on_sphere_def ray_at_def example_sphere_def)
  have "0 < dot (vsub (pr ?R') (position ?S)) (vsub (pr ?R') (position ?S)) - (radius ?S)\<^sup>2
          \<and> dot (nr ?R') (nr ?R') = 1"
    by (simp add: example_sphere_def)
  with intersect_sphere_outside [of ?R' ?S]
  have "(intersect_sphere ?R' ?S = - 1 \<and> (\<forall>t>0. \<not> on_sphere ?S (ray_at ?R' t))) \<or>
        (0 < intersect_sphere ?R' ?S \<and> on_sphere ?S (ray_at ?R' (intersect_sphere ?R' ?S)) \<and>
         (\<forall>t>0. on_sphere ?S (ray_at ?R' t) \<longrightarrow> intersect_sphere ?R' ?S \<le> t))"
    by blast
  then have miss: "\<not> on_sphere ?S (ray_at ?R' 75)"
    unfolding away by simp
  show ?thesis using towards entry exit away miss by simp
qed

text \<open>
  C10. From the origin along \<open>(0,0,1)\<close>, a sphere centred at \<open>(0,0,100)\<close> is entered at
  \<open>t = 75\<close> when its radius is 25 and at \<open>t = 90\<close> when its radius is 10; along
  \<open>(0,0,-1)\<close> both give \<open>-1\<close>. The other attributes of the sphere do not matter.
\<close>

theorem intersect_sphere_examples:
  "intersect_sphere \<lparr>pr = Vec3 0 0 0, nr = Vec3 0 0 1\<rparr>
      (sp\<lparr>position := Vec3 0 0 100, radius := 25\<rparr>) = 75 \<and>
   intersect_sphere \<lparr>pr = Vec3 0 0 0, nr = Vec3 0 0 1\<rparr>
      (sp\<lparr>position := Vec3 0 0 100, radius := 10\<rparr>) = 90 \<and>
   intersect_sphere \<lparr>pr = Vec3 0 0 0, nr = Vec3 0 0 (- 1)\<rparr>
      (sp\<lparr>position := Vec3 0 0 100, radius := 25\<rparr>) = - 1 \<and>
   intersect_sphere \<lparr>pr = Vec3 0 0 0, nr = Vec3 0 0 (- 1)\<rparr>
      (sp\<lparr>position := Vec3 0 0 100, radius := 10\<rparr>) = - 1"
  by (simp add: intersect_sphere_def sqrt_625 sqrt_100)

subsection \<open>Plane\<close>

text \<open>
  C7. With \<open>d = dot(rayDir, planeNormal)\<close>: when \<open>d = 0\<close> the result is 0 if the ray origin
  lies in the plane (\<open>dot(planePoint - rayOrigin, planeNormal) = 0\<close>) and \<open>-1\<close> if not;
  when \<open>d \<noteq> 0\<close> the result is \<open>t = dot(planePoint - rayOrigin, planeNormal) / d\<close> if
  \<open>t \<ge> 0\<close> and \<open>-1\<close> if \<open>t < 0\<close>.
\<close>

theorem intersect_plane_cases:
  fixes r :: ray and pl :: "'a plane_scheme"
  defines "d \<equiv> dot (nr r) (n pl)"
  defines "k \<equiv> dot (vsub (position pl) (pr r)) (n pl)"
  shows "(d = 0 \<and> k = 0 \<longrightarrow> intersect_plane r pl = 0) \<and>
         (d = 0 \<and> k \<noteq> 0 \<longrightarrow> intersect_plane r pl = - 1) \<and>
         (d \<noteq> 0 \<and> 0 \<le> k / d \<longrightarrow> intersect_plane r pl = k / d) \<and>
         (d \<noteq> 0 \<and> k / d < 0 \<longrightarrow> intersect_plane r pl = - 1)"
  by (simp add: intersect_plane_def Let_def d_def k_def)

text \<open>
  The four cases at the plane of main.py (point \<open>(0,-25,0)\<close>, normal \<open>(0,1,0)\<close>): a ray
  inside a parallel plane through the origin, a parallel ray off the plane, a ray towards
  the plane and a ray away from it.
\<close>

theorem intersect_plane_cases_witness:
  "intersect_plane \<lparr>pr = Vec3 0 0 0, nr = Vec3 0 0 1\<rparr>
      (example_plane (Vec3 5 0 7) (Vec3 0 1 0)) = 0 \<and>
   intersect_plane \<lparr>pr = Vec3 0 0 0, nr = Vec3 0 0 1\<rparr>
      (example_plane (Vec3 0 (- 25) 0) (Vec3 0 1 0)) = - 1 \<and>
   intersect_plane \<lparr>pr = Vec3 0 0 0, nr = Vec3 0 (- 1) 0\<rparr>
      (example_plane (Vec3 0 (- 25) 0) (Vec3 0 1 0)) = 25 \<and>
   intersect_plane \<lparr>pr = Vec3 0 0 0, nr = Vec3 0 1 0\<rparr>
      (example_plane (Vec3 0 (- 25) 0) (Vec3 0 1 0)) = - 1"
  using intersect_plane_cases [of "\<lparr>pr = Vec3 0 0 0, nr = Vec3 0 0 1\<rparr>"
      "example_plane (Vec3 5 0 7) (Vec3 0 1 0)"]
    intersect_plane_cases [of "\<lparr>pr = Vec3 0 0 0, nr = Vec3 0 0 1\<rparr>"
      "example_plane (Vec3 0 (- 25) 0) (Vec3 0 1 0)"]
    intersect_plane_cases [of "\<lparr>pr = Vec3 0 0 0, nr = Vec3 0 (- 1) 0\<rparr>"
      "example_plane (Vec3 0 (- 25) 0) (Vec3 0 1 0)"]
    intersect_plane_cases [of "\<lparr>pr = Vec3 0 0 0, nr = Vec3 0 1 0\<rparr>"
      "example_plane (Vec3 0 (- 25) 0) (Vec3 0 1 0)"]
  by (simp add: example_plane_def)

subsection \<open>Triangle\<close>

text \<open>
  C8. The triangle routine intersects the supporting plane, takes the point of the ray at
  that parameter and its barycentric coordinates \<open>(s, t)\<close>. It returns the plane's
  parameter when \<open>s\<close>, \<open>t\<close> and \<open>s + t\<close> all lie in \<open>[0,1]\<close>, and \<open>-1\<close> for a point outside
  that region, whatever the plane intersection gave; so a result other than \<open>-1\<close> is the
  plane's parameter of a point inside the region.
\<close>

theorem intersect_triangle_region:
  fixes r :: ray and tr :: "'a triangle_scheme"
  defines "ray_t \<equiv> intersect_plane r tr"
  defines "s \<equiv> fst (get_barycentric_coord tr (ray_at r ray_t))"
  defines "t \<equiv> snd (get_barycentric_coord tr (ray_at r ray_t))"
  defines "inside \<equiv> 0 \<le> s \<and> s \<le> 1 \<and> 0 \<le> t \<and> t \<le> 1 \<and> 0 \<le> s + t \<and> s + t \<le> 1"
  shows "(inside \<longrightarrow> intersect_triangle r tr = ray_t) \<and>
         (\<not> inside \<longrightarrow> intersect_triangle r tr = - 1) \<and>
         (intersect_triangle r tr \<noteq> - 1 \<longrightarrow> inside \<and> intersect_triangle r tr = ray_t)"
  by (auto simp: intersect_triangle_def Let_def ray_t_def s_def t_def inside_def
           split: prod.splits)

text \<open>
  At the example triangle, a ray along \<open>+z\<close> from \<open>(1/4, 1/4, -1)\<close> hits at \<open>t = 1\<close>; the
  same ray from \<open>(2, 2, -1)\<close> meets the supporting plane at \<open>t = 1\<close> too and is rejected.
\<close>

theorem intersect_triangle_region_witness:
  "intersect_triangle \<lparr>pr = Vec3 (1/4) (1/4) (- 1), nr = Vec3 0 0 1\<rparr> example_triangle = 1 \<and>
   intersect_plane \<lparr>pr = Vec3 2 2 (- 1), nr = Vec3 0 0 1\<rparr> example_triangle = 1 \<and>
   intersect_triangle \<lparr>pr = Vec3 2 2 (- 1), nr = Vec3 0 0 1\<rparr> example_triangle = - 1"
  using intersect_triangle_region
      [where r = "\<lparr>pr = Vec3 (1/4) (1/4) (- 1), nr = Vec3 0 0 1\<rparr>" and tr = example_triangle]
    intersect_triangle_region
      [where r = "\<lparr>pr = Vec3 2 2 (- 1), nr = Vec3 0 0 1\<rparr>" and tr = example_triangle]
  by (simp add: intersect_plane_def ray_at_def example_triangle_def)

section \<open>Properties of the traced ray\<close>

subsection \<open>The closest hit\<close>

lemma raytrace_loop_None:
  "raytrace_loop r objects hit = None \<longleftrightarrow>
     hit = None \<and> (\<forall>obj\<in>set objects. \<not> 0 < intersect r obj)"
  by (induction objects arbitrary: hit) (auto simp: Let_def)

lemma raytrace_loop_Some:
  assumes "raytrace_loop r objects hit = Some (t, obj_h)"
  shows "(hit = Some (t, obj_h) \<and> (\<forall>obj\<in>set objects. 0 < intersect r obj \<longrightarrow> t \<le> intersect r obj))
       \<or> (0 < t \<and> intersect r obj_h = t \<and> below t (map_option fst hit) \<and>
          (\<forall>obj\<in>set objects. 0 < intersect r obj \<longrightarrow> t \<le> intersect r obj) \<and>
          (\<exists>before after. objects = before @ obj_h # after \<and>
             (\<forall>obj\<in>set before. intersect r obj \<noteq> t)))"
  using assms
proof (induction objects arbitrary: hit)
  case Nil
  then show ?case by simp
next
  case (Cons x xs)
  let ?tx = "intersect r x"
  show ?case
  proof (cases "0 < ?tx \<and> below ?tx (map_option fst hit)")
    case True
    with Cons.prems have run: "raytrace_loop r xs (Some (?tx, x)) = Some (t, obj_h)"
      by simp
    from Cons.IH [OF run] show ?thesis
    proof
      assume a: "Some (?tx, x) = Some (t, obj_h) \<and>
                 (\<forall>obj\<in>set xs. 0 < intersect r obj \<longrightarrow> t \<le> intersect r obj)"
      then have "x # xs = [] @ obj_h # xs \<and> (\<forall>obj\<in>set []. intersect r obj \<noteq> t)" by simp
      then have "\<exists>before after. x # xs = before @ obj_h # after \<and>
             (\<forall>obj\<in>set before. intersect r obj \<noteq> t)" by blast
      moreover have "0 < t \<and> intersect r obj_h = t \<and> below t (map_option fst hit)"
        using a True by auto
      moreover have "\<forall>obj\<in>set (x # xs). 0 < intersect r obj \<longrightarrow> t \<le> intersect r obj"
        using a by auto
      ultimately show ?thesis by blast
    next
      assume a: "0 < t \<and> intersect r obj_h = t \<and> below t (map_option fst (Some (?tx, x))) \<and>
          (\<forall>obj\<in>set xs. 0 < intersect r obj \<longrightarrow> t \<le> intersect r obj) \<and>
          (\<exists>before after. xs = before @ obj_h # after \<and>
             (\<forall>obj\<in>set before. intersect r obj \<noteq> t))"
      then obtain before after where
        split: "xs = before @ obj_h # after" "\<forall>obj\<in>set before. intersect r obj \<noteq> t"
        by blast
      from a have lt: "t < ?tx" by simp
      have "x # xs = (x # before) @ obj_h # after" using split by simp
      moreover have "\<forall>obj\<in>set (x # before). intersect r obj \<noteq> t"
        using split lt by auto
      moreover have "below t (map_option fst hit)"
        using True lt by (cases hit) auto
      moreover have "\<forall>obj\<in>set (x # xs). 0 < intersect r obj \<longrightarrow> t \<le> intersect r obj"
        using a lt by auto
      ultimately show ?thesis using a by blast
    qed
  next
    case False
    with Cons.prems have run: "raytrace_loop r xs hit = Some (t, obj_h)"
      by (simp add: Let_def)
    from Cons.IH [OF run] show ?thesis
    proof
      assume a: "hit = Some (t, obj_h) \<and>
                 (\<forall>obj\<in>set xs. 0 < intersect r obj \<longrightarrow> t \<le> intersect r obj)"
      with False show ?thesis by auto
    next
      assume a: "0 < t \<and> intersect r obj_h = t \<and> below t (map_option fst hit) \<and>
          (\<forall>obj\<in>set xs. 0 < intersect r obj \<longrightarrow> t \<le> intersect r obj) \<and>
          (\<exists>before after. xs = before @ obj_h # after \<and>
             (\<forall>obj\<in>set before. intersect r obj \<noteq> t))"
      then obtain before after where
        split: "xs = before @ obj_h # after" "\<forall>obj\<in>set before. intersect r obj \<noteq> t"
        by blast
      have x: "0 < ?tx \<longrightarrow> t < ?tx"
        using False a by (cases hit) auto
      have "x # xs = (x # before) @ obj_h # after" using split by simp
      moreover have "\<forall>obj\<in>set (x # before). intersect r obj \<noteq> t"
        using split x a by auto
      moreover have "\<forall>obj\<in>set (x # xs). 0 < intersect r obj \<longrightarrow> t \<le> intersect r obj"
        using a x by auto
      ultimately show ?thesis using a by blast
    qed
  qed
qed

text \<open>
  C4. The search of \<open>raytrace\<close> ends without a hit exactly when no primitive has a strictly
  positive parameter, and \<open>raytrace\<close> then returns black. Otherwise it ends with a
  primitive \<open>obj_h\<close> of the list and its parameter \<open>t\<close>: \<open>t\<close> is strictly positive, no
  primitive has a smaller strictly positive parameter, and no primitive earlier in the list
  has the same parameter (the first seen wins a tie).
\<close>

theorem raytrace_closest:
  "(raytrace_loop r objects None = None \<longleftrightarrow> (\<forall>obj\<in>set objects. \<not> 0 < intersect r obj)) \<and>
   (raytrace_loop r objects None = None \<longrightarrow>
      raytrace shaders hs nan_u8 r camera_pos objects lights = Inr (Vec3 0 0 0)) \<and>
   (\<forall>t obj_h. raytrace_loop r objects None = Some (t, obj_h) \<longrightarrow>
      0 < t \<and> intersect r obj_h = t \<and>
      (\<forall>obj\<in>set objects. 0 < intersect r obj \<longrightarrow> t \<le> intersect r obj) \<and>
      (\<exists>before after. objects = before @ obj_h # after \<and>
         (\<forall>obj\<in>set before. intersect r obj \<noteq> t)))"
proof (intro conjI allI impI)
  show "raytrace_loop r objects None = None \<longleftrightarrow> (\<forall>obj\<in>set objects. \<not> 0 < intersect r obj)"
    by (simp add: raytrace_loop_None)
  show "raytrace shaders hs nan_u8 r camera_pos objects lights = Inr (Vec3 0 0 0)"
    if "raytrace_loop r objects None = None"
    using that by (simp add: raytrace_def)
next
  fix t obj_h
  assume "raytrace_loop r objects None = Some (t, obj_h)"
  from raytrace_loop_Some [OF this]
  have all: "0 < t \<and> intersect r obj_h = t \<and>
      (\<forall>obj\<in>set objects. 0 < intersect r obj \<longrightarrow> t \<le> intersect r obj) \<and>
      (\<exists>before after. objects = before @ obj_h # after \<and>
         (\<forall>obj\<in>set before. intersect r obj \<noteq> t))"
    by simp
  show "0 < t" "intersect r obj_h = t"
    "\<forall>obj\<in>set objects. 0 < intersect r obj \<longrightarrow> t \<le> intersect r obj"
    "\<exists>before after. objects = before @ obj_h # after \<and>
         (\<forall>obj\<in>set before. intersect r obj \<noteq> t)"
    using all by blast+
qed

text \<open>
  In the example scene the ray along \<open>+z\<close> keeps the first of the two spheres entered at
  75; the ray along \<open>-z\<close> hits nothing and is black.
\<close>

theorem raytrace_closest_witness:
  "raytrace_loop \<lparr>pr = Vec3 0 0 0, nr = Vec3 0 0 1\<rparr> example_scene None =
     Some (75, Sphere (example_sphere (Vec3 0 0 100) 25)) \<and>
   intersect \<lparr>pr = Vec3 0 0 0, nr = Vec3 0 0 1\<rparr>
     (Sphere (example_sphere (Vec3 0 0 100) 25)) = 75 \<and>
   raytrace_loop \<lparr>pr = Vec3 0 0 0, nr = Vec3 0 0 (- 1)\<rparr> example_scene None = None \<and>
   raytrace shaders_module (\<lambda>ph objs l d. zeros3) 0
     \<lparr>pr = Vec3 0 0 0, nr = Vec3 0 0 (- 1)\<rparr> (Vec3 0 0 0) example_scene
     [example_light (Vec3 0 50 50)] = Inr (Vec3 0 0 0)"
proof -
  let ?R = "\<lparr>pr = Vec3 0 0 0, nr = Vec3 0 0 1\<rparr>"
  let ?R' = "\<lparr>pr = Vec3 0 0 0, nr = Vec3 0 0 (- 1)\<rparr>"
  have found: "raytrace_loop ?R example_scene None =
      Some (75, Sphere (example_sphere (Vec3 0 0 100) 25))"
    by (simp add: example_scene_def example_sphere_def example_plane_def
          intersect_sphere_def intersect_plane_def sqrt_625)
  with raytrace_closest [of ?R example_scene]
  have t: "intersect ?R (Sphere (example_sphere (Vec3 0 0 100) 25)) = 75"
    by blast
  have "\<forall>obj\<in>set example_scene. \<not> 0 < intersect ?R' obj"
    by (simp add: example_scene_def example_sphere_def example_plane_def
          intersect_sphere_def intersect_plane_def)
  with raytrace_closest [of ?R' example_scene shaders_module "\<lambda>ph objs l d. zeros3" 0
      "Vec3 0 0 0" "[example_light (Vec3 0 50 50)]"]
  have "raytrace_loop ?R' example_scene None = None \<and>
        raytrace shaders_module (\<lambda>ph objs l d. zeros3) 0 ?R' (Vec3 0 0 0) example_scene
          [example_light (Vec3 0 50 50)] = Inr (Vec3 0 0 0)"
    by blast
  with found t show ?thesis by simp
qed

subsection \<open>Direct shading\<close>

text \<open>
  C6. When the normal of the hit primitive at the hit point is undefined and there is a
  light, \<open>compute_color\<close> returns black at the first light: no light contributes and
  nothing is raised.
\<close>

theorem compute_color_undefined_normal:
  "normal_at (base obj) ph = None \<Longrightarrow> lights \<noteq> [] \<Longrightarrow>
   compute_color nan_u8 ph eye obj lights = Inr (Vec3 0 0 0)"
  by (cases lights) (simp_all add: compute_color_def zeros3_def)

theorem compute_color_undefined_normal_witness:
  "compute_color 0 (Vec3 0 0 75) (Vec3 0 0 (- 1))
     (Sphere (example_sphere (Vec3 0 0 100) 25))
     [example_light (Vec3 0 50 50), example_light (Vec3 0 0 0)] = Inr (Vec3 0 0 0)"
  using compute_color_undefined_normal [of "Sphere (example_sphere (Vec3 0 0 100) 25)"
      "Vec3 0 0 75" "[example_light (Vec3 0 50 50), example_light (Vec3 0 0 0)]"
      0 "Vec3 0 0 (- 1)"]
  by (simp add: example_sphere_def as_object_def)

subsection \<open>The shadow step\<close>

lemma hard_shadow_unbound: "getattr shaders_module ''hard_shadow'' hs = Inl AttributeError"
  by (simp add: getattr_def shaders_module_def)

lemma compute_shadow_fails:
  "lights \<noteq> [] \<Longrightarrow>
   compute_shadow shaders_module hs nan_u8 ph objects lights = Inl AttributeError"
  by (cases lights) (simp_all add: compute_shadow_def hard_shadow_unbound)

lemma compute_color_loop_error:
  "compute_color_loop ph eye obj lights acc = Inl e \<Longrightarrow> e = AttributeError"
  by (induction lights arbitrary: acc)
     (auto simp: Let_def split: option.splits if_splits)

lemma compute_color_error:
  "compute_color nan_u8 ph eye obj lights = Inl e \<Longrightarrow> e = AttributeError"
  by (auto simp: compute_color_def split: sum.splits loop_exit.splits if_splits
           dest: compute_color_loop_error)

text \<open>
  C2, as stated, fails for a scene without lights: neither loop over the lights runs, so
  \<open>shaders.hard_shadow\<close> is never looked up, and the hit branch returns a triple (the
  casts of \<open>nan\<close>, multiplied and rounded; black where the cast of \<open>nan\<close> is 0).
\<close>

theorem raytrace_no_lights_counterexample:
  "0 < intersect \<lparr>pr = Vec3 0 0 0, nr = Vec3 0 0 1\<rparr>
         (Sphere (example_sphere (Vec3 0 0 100) 25)) \<and>
   raytrace shaders_module (\<lambda>ph objs l d. zeros3) 0
     \<lparr>pr = Vec3 0 0 0, nr = Vec3 0 0 1\<rparr> (Vec3 0 0 0)
     [Sphere (example_sphere (Vec3 0 0 100) 25)] [] = Inr (Vec3 0 0 0)"
  by (simp add: raytrace_def compute_color_def compute_shadow_def example_sphere_def
        intersect_sphere_def sqrt_625 bcast_def astype_uint8_def np_round_def)

text \<open>
  C2, amended. When the ray hits some primitive and there is at least one light, the
  shadow step looks up \<open>hard_shadow\<close> in the shaders module, which does not bind it:
  \<open>compute_shadow\<close> raises \<open>AttributeError\<close> whatever the hit point and the objects, and
  \<open>raytrace\<close> raises it too and returns no colour.
\<close>

theorem raytrace_hit_fails:
  assumes "obj \<in> set objects" and "0 < intersect r obj" and "lights \<noteq> []"
  shows "compute_shadow shaders_module hs nan_u8 ph objects_to_check lights = Inl AttributeError \<and>
         raytrace shaders_module hs nan_u8 r camera_pos objects lights = Inl AttributeError"
proof
  show "compute_shadow shaders_module hs nan_u8 ph objects_to_check lights = Inl AttributeError"
    using assms(3) by (rule compute_shadow_fails)
  from assms(1,2) have "raytrace_loop r objects None \<noteq> None"
    by (auto simp: raytrace_loop_None)
  then obtain tmin obj_h where "raytrace_loop r objects None = Some (tmin, obj_h)"
    by auto
  then show "raytrace shaders_module hs nan_u8 r camera_pos objects lights = Inl AttributeError"
    using assms(3)
    by (auto simp: raytrace_def Let_def compute_shadow_fails split: sum.splits
             dest: compute_color_error)
qed

theorem raytrace_hit_fails_witness:
  "raytrace shaders_module (\<lambda>ph objs l d. zeros3) 0
     \<lparr>pr = Vec3 0 0 0, nr = Vec3 0 0 1\<rparr> (Vec3 0 0 0) example_scene
     [example_light (Vec3 0 50 50)] = Inl AttributeError"
proof -
  let ?R = "\<lparr>pr = Vec3 0 0 0, nr = Vec3 0 0 1\<rparr>"
  let ?S = "Sphere (example_sphere (Vec3 0 0 100) 25)"
  have "?S \<in> set example_scene" by (simp add: example_scene_def)
  moreover have "0 < intersect ?R ?S"
    by (simp add: example_sphere_def intersect_sphere_def sqrt_625)
  moreover have "[example_light (Vec3 0 50 50)] \<noteq> []" by simp
  ultimately show ?thesis
    using raytrace_hit_fails [of ?S example_scene ?R "[example_light (Vec3 0 50 50)]"]
    by blast
qed

section \<open>Properties of the atmosphere\<close>

subsection \<open>The missing distance\<close>

lemma distance_unbound: "getattr utils_module ''distance'' dfn = Inl AttributeError"
  by (simp add: getattr_def utils_module_def)

lemma density_at_point_fails:
  "density_at_point utils_module dfn sky p = Inl AttributeError"
  by (simp add: density_at_point_def distance_unbound)

lemma zip_range_Cons:
  "0 < k \<Longrightarrow> zip [0..<k] (fst (random_sample k g)) = (0, g 0) # zip [Suc 0..<k] (map g [Suc 0..<k])"
  by (simp add: random_sample_def upt_conv_Cons)

lemma optical_depth_fails:
  assumes "0 < num_samples"
  shows "optical_depth utils_module dfn sky p direction distance num_samples g = Inl AttributeError"
proof -
  have "zip [0..<num_samples] (map g [0..<num_samples])
          = (0, g 0) # zip [Suc 0..<num_samples] (map g [Suc 0..<num_samples])"
    using assms by (simp add: upt_conv_Cons)
  then show ?thesis
    by (simp add: optical_depth_def random_sample_def density_at_point_fails)
qed

lemma out_scattering_fails:
  "0 < num_samples \<Longrightarrow>
   out_scattering utils_module dfn sky p direction distance num_samples g = Inl AttributeError"
  by (simp add: out_scattering_def optical_depth_fails)

lemma light_at_ray_step_fails:
  "\<not> in_shadow sky r ((dta / real vs) * (real i + rnd)) \<Longrightarrow>
   light_at_ray_step utils_module dfn sky r dta vs i rnd st = Inl AttributeError"
  by (cases st) (simp add: light_at_ray_step_def Let_def optical_depth_fails OPTICAL_DEPTH_SAMPLES_def)

lemma light_at_ray_step_shadow:
  "in_shadow sky r ((dta / real vs) * (real i + rnd)) \<Longrightarrow>
   light_at_ray_step utils_module dfn sky r dta vs i rnd st = Inr st"
  by (cases st) (simp add: light_at_ray_step_def Let_def)

lemma light_at_ray_loop_fails:
  "\<exists>(i, rnd)\<in>set samples. \<not> in_shadow sky r ((dta / real vs) * (real i + rnd)) \<Longrightarrow>
   light_at_ray_loop utils_module dfn sky r dta vs samples st = Inl AttributeError"
proof (induction samples arbitrary: st)
  case Nil
  then show ?case by simp
next
  case (Cons x xs)
  obtain i rnd where x: "x = (i, rnd)" by (cases x)
  show ?case
  proof (cases "in_shadow sky r ((dta / real vs) * (real i + rnd))")
    case True
    with Cons.prems x have "\<exists>(i, rnd)\<in>set xs. \<not> in_shadow sky r ((dta / real vs) * (real i + rnd))"
      by auto
    then show ?thesis using True x Cons.IH by (simp add: light_at_ray_step_shadow)
  next
    case False
    then show ?thesis using x by (simp add: light_at_ray_step_fails)
  qed
qed

lemma in_scattering_step_fails:
  "\<not> in_shadow sky r ((dta / real vs) * (real i + rnd)) \<Longrightarrow>
   in_scattering_step utils_module dfn sky r dta vs i rnd st = Inl AttributeError"
  by (cases st) (simp add: in_scattering_step_def Let_def out_scattering_fails OPTICAL_DEPTH_SAMPLES_def)

lemma in_scattering_step_shadow:
  "in_shadow sky r ((dta / real vs) * (real i + rnd)) \<Longrightarrow>
   in_scattering_step utils_module dfn sky r dta vs i rnd st = Inr st"
  by (cases st) (simp add: in_scattering_step_def Let_def)

lemma in_scattering_loop_fails:
  "\<exists>(i, rnd)\<in>set samples. \<not> in_shadow sky r ((dta / real vs) * (real i + rnd)) \<Longrightarrow>
   in_scattering_loop utils_module dfn sky r dta vs samples st = Inl AttributeError"
proof (induction samples arbitrary: st)
  case Nil
  then show ?case by simp
next
  case (Cons x xs)
  obtain i rnd where x: "x = (i, rnd)" by (cases x)
  show ?case
  proof (cases "in_shadow sky r ((dta / real vs) * (real i + rnd))")
    case True
    with Cons.prems x have "\<exists>(i, rnd)\<in>set xs. \<not> in_shadow sky r ((dta / real vs) * (real i + rnd))"
      by auto
    then show ?thesis using True x Cons.IH by (simp add: in_scattering_step_shadow)
  next
    case False
    then show ?thesis using x by (simp add: in_scattering_step_fails)
  qed
qed

lemma concentric_order:
  assumes "0 \<le> rad" "0 \<le> height" 
    "position s1 = c" "position s2 = c" "radius s1 = rad" "radius s2 = rad + height"
  shows "\<not> (0 < intersect_sphere r s1 \<and> intersect_sphere r s1 < intersect_sphere r s2)"
proof -
  let ?b = "dot (nr r) (vsub (pr r) c)"
  let ?q = "dot (vsub (pr r) c) (vsub (pr r) c)"
  have sq: "rad\<^sup>2 \<le> (rad + height)\<^sup>2" using assms(1,2) by (simp add: power_mono)
  show ?thesis
  proof (cases "?b > 0 \<or> ?b\<^sup>2 - (?q - rad\<^sup>2) < 0")
    case True
    then have "intersect_sphere r s1 = - 1"
      using assms by (auto simp: intersect_sphere_def Let_def)
    then show ?thesis by simp
  next
    case False
    then have 1: "intersect_sphere r s1 = - ?b - sqrt (?b\<^sup>2 - (?q - rad\<^sup>2))"
      using assms by (auto simp: intersect_sphere_def Let_def)
    from False sq have "\<not> (?b > 0 \<or> ?b\<^sup>2 - (?q - (rad + height)\<^sup>2) < 0)" by auto
    then have 2: "intersect_sphere r s2 = - ?b - sqrt (?b\<^sup>2 - (?q - (rad + height)\<^sup>2))"
      using assms by (auto simp: intersect_sphere_def Let_def)
    have "sqrt (?b\<^sup>2 - (?q - rad\<^sup>2)) \<le> sqrt (?b\<^sup>2 - (?q - (rad + height)\<^sup>2))"
      using sq by simp
    then show ?thesis using 1 2 by simp
  qed
qed

lemma SkyDome_never_in_shadow:
  assumes "0 \<le> rad" "0 \<le> height"
  shows "\<not> in_shadow (SkyDome nrm c rad sun height avg) r distance"
proof -
  let ?sun_ray = "\<lparr>pr = ray_at r distance, nr = sun\<rparr>"
  let ?s1 = "\<lparr>position = c, material = None, shader_type = None,
              normal_at = nrm c rad, radius = rad\<rparr>"
  let ?s2 = "\<lparr>position = c, material = None, shader_type = None,
              normal_at = nrm c (rad + height), radius = rad + height\<rparr>"
  have "\<not> (0 < intersect_sphere ?sun_ray ?s1 \<and>
           intersect_sphere ?sun_ray ?s1 < intersect_sphere ?sun_ray ?s2)"
    by (rule concentric_order [OF assms, where c = c]) simp_all
  then show ?thesis
    by (simp add: in_shadow_def SkyDome_def Let_def)
qed

lemma sample0_in: "0 < k \<Longrightarrow> (0, g 0) \<in> set (zip [0..<k] (fst (random_sample k g)))"
  by (simp add: zip_range_Cons)

text \<open>
  C3, as stated, fails where no sample is taken: with a sample count of 0 the loops of
  \<open>optical_depth\<close>, \<open>out_scattering\<close>, \<open>in_scattering\<close> and \<open>light_at_ray\<close> never reach
  \<open>density_at_point\<close>, and each of the four returns a value.
\<close>

theorem atmosphere_no_samples_counterexample:
  "optical_depth utils_module example_distance example_sky (Vec3 0 0 0) (Vec3 0 1 0) 1000 0
     (\<lambda>i. 1 / 2) = Inr (0, (\<lambda>i. 1 / 2)) \<and>
   out_scattering utils_module example_distance example_sky (Vec3 0 0 0) (Vec3 0 1 0) 1000 0
     (\<lambda>i. 1 / 2) = Inr (Vec3 0 0 0, (\<lambda>i. 1 / 2)) \<and>
   in_scattering utils_module example_distance example_sky
     \<lparr>pr = Vec3 0 0 0, nr = Vec3 0 1 0\<rparr> 0 (\<lambda>i. 1 / 2) = Inr (Vec3 0 0 0, (\<lambda>i. 1 / 2)) \<and>
   light_at_ray utils_module example_distance example_sky
     \<lparr>pr = Vec3 0 0 0, nr = Vec3 0 1 0\<rparr> 0 (\<lambda>i. 1 / 2)
       = Inr ((Some 0, Some 0, Some 0), (\<lambda>i. 1 / 2))"
  by (simp add: optical_depth_def out_scattering_def in_scattering_def light_at_ray_def
        random_sample_def SCATTERING_COEFFICIENTS_def WAVE_LENGTHS_def SUN_COLOR_def
        zeros3_def example_sky_def SkyDome_def EARTH_RADIUS_def divide_clip_def)

text \<open>
  C3, amended. \<open>density_at_point\<close> looks up \<open>distance\<close> in the utils module, which does not
  bind it, and raises \<open>AttributeError\<close> for every point. So do \<open>optical_depth\<close> and
  \<open>out_scattering\<close> whenever they take at least one sample, and \<open>in_scattering\<close> and
  \<open>light_at_ray\<close> whenever some sample of the view ray is not skipped as shadowed; for a
  sky dome built with a radius and an atmosphere height that are not negative no sample
  is skipped, so both fail whenever they take at least one sample.
\<close>

theorem atmosphere_fails:
  "density_at_point utils_module dfn sky p = Inl AttributeError \<and>
   (0 < num_samples \<longrightarrow>
      optical_depth utils_module dfn sky p direction distance num_samples g = Inl AttributeError \<and>
      out_scattering utils_module dfn sky p direction distance num_samples g = Inl AttributeError) \<and>
   ((\<exists>(i, rnd)\<in>set (zip [0..<view_samples] (fst (random_sample view_samples g))).
        \<not> in_shadow sky r ((intersect r (atmosphere_obj sky) / real view_samples) * (real i + rnd))) \<longrightarrow>
      in_scattering utils_module dfn sky r view_samples g = Inl AttributeError \<and>
      light_at_ray utils_module dfn sky r view_samples g = Inl AttributeError) \<and>
   (0 < view_samples \<and> 0 \<le> rad \<and> 0 \<le> height \<longrightarrow>
      in_scattering utils_module dfn (SkyDome nrm c rad sun height avg) r view_samples g
        = Inl AttributeError \<and>
      light_at_ray utils_module dfn (SkyDome nrm c rad sun height avg) r view_samples g
        = Inl AttributeError)"
proof (intro conjI impI)
  show "density_at_point utils_module dfn sky p = Inl AttributeError"
    by (rule density_at_point_fails)
  show "optical_depth utils_module dfn sky p direction distance num_samples g = Inl AttributeError"
    if "0 < num_samples" using that by (rule optical_depth_fails)
  show "out_scattering utils_module dfn sky p direction distance num_samples g = Inl AttributeError"
    if "0 < num_samples" using that by (rule out_scattering_fails)
next
  assume a: "\<exists>(i, rnd)\<in>set (zip [0..<view_samples] (fst (random_sample view_samples g))).
        \<not> in_shadow sky r ((intersect r (atmosphere_obj sky) / real view_samples) * (real i + rnd))"
  show "in_scattering utils_module dfn sky r view_samples g = Inl AttributeError"
    using in_scattering_loop_fails [OF a]
    by (simp add: in_scattering_def random_sample_def)
  show "light_at_ray utils_module dfn sky r view_samples g = Inl AttributeError"
    using light_at_ray_loop_fails [OF a]
    by (simp add: light_at_ray_def random_sample_def)
next
  assume a: "0 < view_samples \<and> 0 \<le> rad \<and> 0 \<le> height"
  let ?sky = "SkyDome nrm c rad sun height avg"
  have "(0, g 0) \<in> set (zip [0..<view_samples] (fst (random_sample view_samples g)))"
    using a by (simp add: sample0_in)
  moreover have "\<not> in_shadow ?sky r
      ((intersect r (atmosphere_obj ?sky) / real view_samples) * (real 0 + g 0))"
    using a by (simp add: SkyDome_never_in_shadow)
  ultimately have b: "\<exists>(i, rnd)\<in>set (zip [0..<view_samples] (fst (random_sample view_samples g))).
        \<not> in_shadow ?sky r ((intersect r (atmosphere_obj ?sky) / real view_samples) * (real i + rnd))"
    by blast
  show "in_scattering utils_module dfn ?sky r view_samples g = Inl AttributeError"
    using in_scattering_loop_fails [OF b]
    by (simp add: in_scattering_def random_sample_def)
  show "light_at_ray utils_module dfn ?sky r view_samples g = Inl AttributeError"
    using light_at_ray_loop_fails [OF b]
    by (simp add: light_at_ray_def random_sample_def)
qed

theorem atmosphere_fails_witness:
  "density_at_point utils_module example_distance example_sky (Vec3 0 1000 0) = Inl AttributeError \<and>
   optical_depth utils_module example_distance example_sky (Vec3 0 0 0) (Vec3 0 1 0) 1000
     OPTICAL_DEPTH_SAMPLES (\<lambda>i. 1 / 2) = Inl AttributeError \<and>
   out_scattering utils_module example_distance example_sky (Vec3 0 0 0) (Vec3 0 1 0) 1000
     OPTICAL_DEPTH_SAMPLES (\<lambda>i. 1 / 2) = Inl AttributeError \<and>
   in_scattering utils_module example_distance example_sky
     \<lparr>pr = Vec3 0 0 0, nr = Vec3 0 1 0\<rparr> IN_SCATTER_SAMPLES (\<lambda>i. 1 / 2) = Inl AttributeError \<and>
   light_at_ray utils_module example_distance example_sky
     \<lparr>pr = Vec3 0 0 0, nr = Vec3 0 1 0\<rparr> IN_SCATTER_SAMPLES (\<lambda>i. 1 / 2) = Inl AttributeError"
proof -
  have "0 < OPTICAL_DEPTH_SAMPLES" by (simp add: OPTICAL_DEPTH_SAMPLES_def)
  moreover have "0 < IN_SCATTER_SAMPLES \<and> 0 \<le> EARTH_RADIUS \<and> 0 \<le> DEFAULT_ATMOSPHERE_HEIGHT"
    by (simp add: IN_SCATTER_SAMPLES_def EARTH_RADIUS_def DEFAULT_ATMOSPHERE_HEIGHT_def)
  ultimately show ?thesis
    unfolding example_sky_def
    using atmosphere_fails [where dfn = example_distance
        and sky = "SkyDome (\<lambda>c rad p. None) DEFAULT_CENTER EARTH_RADIUS DEFAULT_SUN_DIRECTION
           DEFAULT_ATMOSPHERE_HEIGHT DEFAULT_AVG_DENSITY_HEIGHT"
        and p = "Vec3 0 1000 0" and num_samples = OPTICAL_DEPTH_SAMPLES
        and direction = "Vec3 0 1 0" and distance = 1000 and g = "\<lambda>i. 1 / 2"]
      atmosphere_fails [where dfn = example_distance
        and p = "Vec3 0 0 0" and num_samples = OPTICAL_DEPTH_SAMPLES
        and direction = "Vec3 0 1 0" and distance = 1000 and g = "\<lambda>i. 1 / 2"
        and view_samples = IN_SCATTER_SAMPLES and r = "\<lparr>pr = Vec3 0 0 0, nr = Vec3 0 1 0\<rparr>"
        and rad = EARTH_RADIUS and height = DEFAULT_ATMOSPHERE_HEIGHT
        and nrm = "\<lambda>c rad p. None" and c = DEFAULT_CENTER
        and sun = DEFAULT_SUN_DIRECTION and avg = DEFAULT_AVG_DENSITY_HEIGHT
        and sky = "SkyDome (\<lambda>c rad p. None) DEFAULT_CENTER EARTH_RADIUS DEFAULT_SUN_DIRECTION
           DEFAULT_ATMOSPHERE_HEIGHT DEFAULT_AVG_DENSITY_HEIGHT"]
    by blast
qed

subsection \<open>The density profile\<close>

text \<open>
  What \<open>density_at_point\<close> computes once a module binds \<open>distance\<close>, and the shape of that
  profile between the ground and the top of the atmosphere.
\<close>

lemma density_at_point_bound:
  assumes "''distance'' \<in> set utils" "atmosphere_height sky \<noteq> 0"
  shows "density_at_point utils dfn sky p =
     Inr (exp (- ((dfn p (center sky) - sky_radius sky) / atmosphere_height sky) * DENSITY_FALLOFF)
          * (1 - (dfn p (center sky) - sky_radius sky) / atmosphere_height sky))"
  using assms by (simp add: density_at_point_def getattr_def Let_def)

lemma density_profile:
  fixes h1 h2 :: real
  assumes "0 \<le> h1" "h1 < h2" "h2 \<le> 1"
  shows "exp (- h2 * DENSITY_FALLOFF) * (1 - h2) < exp (- h1 * DENSITY_FALLOFF) * (1 - h1)"
    and "0 \<le> exp (- h2 * DENSITY_FALLOFF) * (1 - h2)"
    and "0 \<le> exp (- h1 * DENSITY_FALLOFF) * (1 - h1)"
proof -
  have e: "exp (- h2 * DENSITY_FALLOFF) < exp (- h1 * DENSITY_FALLOFF)"
    using assms by (simp add: DENSITY_FALLOFF_def)
  have "exp (- h2 * DENSITY_FALLOFF) * (1 - h2) \<le> exp (- h2 * DENSITY_FALLOFF) * (1 - h1)"
    using assms by (simp add: mult_left_mono)
  also have "\<dots> < exp (- h1 * DENSITY_FALLOFF) * (1 - h1)"
    using e assms by (simp add: mult_strict_right_mono)
  finally show "exp (- h2 * DENSITY_FALLOFF) * (1 - h2) < exp (- h1 * DENSITY_FALLOFF) * (1 - h1)" .
  show "0 \<le> exp (- h2 * DENSITY_FALLOFF) * (1 - h2)" using assms by simp
  show "0 \<le> exp (- h1 * DENSITY_FALLOFF) * (1 - h1)" using assms by simp
qed

lemma optical_depth_loop_bound:
  assumes "''distance'' \<in> set utils" "atmosphere_height sky \<noteq> 0"
  shows "\<exists>od. optical_depth_loop utils dfn sky p direction distance k samples acc = Inr od"
proof (induction samples arbitrary: acc)
  case Nil
  then show ?case by simp
next
  case (Cons x xs)
  obtain i rnd where "x = (i, rnd)" by (cases x)
  then show ?case
    using Cons.IH by (simp add: Let_def density_at_point_bound [OF assms])
qed

lemma optical_depth_bound:
  assumes "''distance'' \<in> set utils" "atmosphere_height sky \<noteq> 0"
  shows "\<exists>od. optical_depth utils dfn sky p direction distance k g = Inr (od, (\<lambda>i. g (i + k)))"
proof -
  obtain od where "optical_depth_loop utils dfn sky p direction distance k
      (zip [0..<k] (map g [0..<k])) 0 = Inr od"
    using optical_depth_loop_bound [OF assms] by blast
  then show ?thesis by (simp add: optical_depth_def random_sample_def)
qed

text \<open>
  C9. The body of \<open>density_at_point\<close> is the formula of the claim, and the formula is not
  negative and strictly decreasing on \<open>[0, 1]\<close> (the two lemmas above). The function of
  the source never gets that far: utils.py binds no \<open>distance\<close>. At the point \<open>(0,0,0)\<close>
  on the ground of the default sky dome the density of the claim is 1, which is what a
  utils module with the expected \<open>distance\<close> gives; the module of the source gives
  \<open>AttributeError\<close>.
\<close>

theorem density_at_point_ground:
  "density_at_point utils_module example_distance example_sky (Vec3 0 0 0) = Inl AttributeError \<and>
   density_at_point (''distance'' # utils_module) example_distance example_sky (Vec3 0 0 0) = Inr 1"
proof -
  have pos: "0 \<le> EARTH_RADIUS" by (simp add: EARTH_RADIUS_def)
  have "example_distance (Vec3 0 0 0) (center example_sky) = \<bar>EARTH_RADIUS\<bar>"
    by (simp add: example_distance_def example_sky_def SkyDome_def DEFAULT_CENTER_def)
  then have d: "example_distance (Vec3 0 0 0) (center example_sky) = sky_radius example_sky"
    using pos by (simp add: example_sky_def SkyDome_def)
  have h: "atmosphere_height example_sky \<noteq> 0"
    by (simp add: example_sky_def SkyDome_def DEFAULT_ATMOSPHERE_HEIGHT_def EARTH_RADIUS_def)
  have "density_at_point (''distance'' # utils_module) example_distance example_sky (Vec3 0 0 0)
          = Inr 1"
    by (simp add: density_at_point_bound [OF _ h] d)
  then show ?thesis by (simp add: density_at_point_fails)
qed

subsection \<open>The samples of the sky colour\<close>

lemma example_view_dist: "intersect example_view (atmosphere_obj unit_sky) = - (1 / 2)"
proof -
  have "sqrt 4 = 2" by (rule real_sqrt_unique) simp_all
  then show ?thesis
    by (simp add: example_view_def unit_sky_def SkyDome_def intersect_sphere_def
          power2_eq_square)
qed

lemma unit_sky_not_in_shadow: "\<not> in_shadow unit_sky r d"
  unfolding unit_sky_def by (rule SkyDome_never_in_shadow) simp_all

lemma unit_sky_height: "atmosphere_height unit_sky \<noteq> 0"
  by (simp add: unit_sky_def SkyDome_def)

lemma example_distance_axis: "example_distance (Vec3 0 y 0) (center unit_sky) = \<bar>y\<bar>"
  by (simp add: example_distance_def unit_sky_def SkyDome_def)

text \<open>
  C5. A sample of \<open>light_at_ray\<close> that is not shadowed asks for the optical depth towards
  the sun before anything else, and \<open>optical_depth\<close> asks for the density of its first
  sample point, which raises: no sample of the source ever contributes to the light. In
  the small sky, along the example view with two samples and every random number \<open>1/2\<close>,
  the step of the second sample (\<open>i = 1\<close>), for which the claim gives the contribution
  \<open>density \<sqdot> exp(\<dots>) \<sqdot> (1 + 1/2) \<sqdot> dist_to_atmosphere / 2\<close>, raises \<open>AttributeError\<close>, and
  so does \<open>light_at_ray\<close>.
\<close>

theorem light_at_ray_sample_fails:
  "light_at_ray_step utils_module example_distance unit_sky example_view
     (intersect example_view (atmosphere_obj unit_sky)) 2 1 (1 / 2) (zeros3, (\<lambda>i. 1 / 2))
     = Inl AttributeError \<and>
   light_at_ray utils_module example_distance unit_sky example_view 2 (\<lambda>i. 1 / 2)
     = Inl AttributeError"
proof
  show "light_at_ray_step utils_module example_distance unit_sky example_view
     (intersect example_view (atmosphere_obj unit_sky)) 2 1 (1 / 2) (zeros3, (\<lambda>i. 1 / 2))
     = Inl AttributeError"
    by (rule light_at_ray_step_fails) (rule unit_sky_not_in_shadow)
  let ?g = "\<lambda>i::nat. 1 / 2 :: real"
  have "(0, ?g 0) \<in> set (zip [0..<2] (fst (random_sample 2 ?g)))"
    by (rule sample0_in) simp
  moreover have "\<not> in_shadow unit_sky example_view
      ((intersect example_view (atmosphere_obj unit_sky) / real 2) * (real 0 + ?g 0))"
    by (rule unit_sky_not_in_shadow)
  ultimately have "\<exists>(i, rnd)\<in>set (zip [0..<2] (fst (random_sample 2 ?g))).
      \<not> in_shadow unit_sky example_view
        ((intersect example_view (atmosphere_obj unit_sky) / real 2) * (real i + rnd))"
    by blast
  from light_at_ray_loop_fails [OF this]
  show "light_at_ray utils_module example_distance unit_sky example_view 2 ?g
     = Inl AttributeError"
    by (simp add: light_at_ray_def random_sample_def)
qed

subsection \<open>The body of the sample step\<close>

text \<open>
  What the step of \<open>light_at_ray\<close> computes once a module binds \<open>distance\<close>, as the density
  profile above: a sample that is not shadowed adds
  \<open>density \<sqdot> exp(-(sunOpticalDepth + viewOpticalDepth) \<sqdot> scatteringCoefficients) \<sqdot>
  segment_size\<close> to the light, with \<open>segment_size = randoms[i] \<sqdot> dist_to_atmosphere /
  view_samples\<close>. That weight is the offset of the sample inside its stratum; the step
  worded by the spec weights by the jittered distance, and the two differ from the second
  sample on. None of this is reached with the utils module of the source.
\<close>

lemma light_at_ray_step_bound:
  fixes r :: ray and sky :: skydome and dist_to_atmosphere rnd :: real
    and view_samples i :: nat
  defines "distance \<equiv> (dist_to_atmosphere / real view_samples) * (real i + rnd)"
  defines "sample_point \<equiv> ray_at r distance"
  defines "t_to_atmosphere \<equiv>
     intersect \<lparr>pr = sample_point, nr = sun_direction sky\<rparr> (atmosphere_obj sky)"
  assumes "\<not> in_shadow sky r distance"
    and "optical_depth utils dfn sky sample_point (sun_direction sky) t_to_atmosphere
            OPTICAL_DEPTH_SAMPLES g = Inr (sun_optical_depth, g')"
    and "optical_depth utils dfn sky sample_point (vneg (nr r)) distance
            OPTICAL_DEPTH_SAMPLES g' = Inr (view_optical_depth, g'')"
    and "density_at_point utils dfn sky sample_point = Inr density"
  shows "light_at_ray_step utils dfn sky r dist_to_atmosphere view_samples i rnd (light, g)
              = Inr (vadd light
                       (smul (density * (rnd * (dist_to_atmosphere / real view_samples)))
                          (vmap exp (smul (- (sun_optical_depth + view_optical_depth))
                                       SCATTERING_COEFFICIENTS))),
                     g'')"
  using assms
  by (simp add: light_at_ray_step_def Let_def mult.commute)

lemma light_at_ray_step_spec_contribution:
  fixes r :: ray and sky :: skydome and dist_to_atmosphere rnd :: real
    and view_samples i :: nat
  defines "distance \<equiv> (dist_to_atmosphere / real view_samples) * (real i + rnd)"
  defines "sample_point \<equiv> ray_at r distance"
  defines "t_to_atmosphere \<equiv>
     intersect \<lparr>pr = sample_point, nr = sun_direction sky\<rparr> (atmosphere_obj sky)"
  assumes "\<not> in_shadow sky r distance"
    and "optical_depth utils dfn sky sample_point (sun_direction sky) t_to_atmosphere
            OPTICAL_DEPTH_SAMPLES g = Inr (sun_optical_depth, g')"
    and "optical_depth utils dfn sky sample_point (vneg (nr r)) distance
            OPTICAL_DEPTH_SAMPLES g' = Inr (view_optical_depth, g'')"
    and "density_at_point utils dfn sky sample_point = Inr density"
  shows "light_at_ray_step_spec utils dfn sky r dist_to_atmosphere view_samples i rnd (light, g)
              = Inr (vadd light
                       (smul (density * ((real i + rnd) * (dist_to_atmosphere / real view_samples)))
                          (vmap exp (smul (- (sun_optical_depth + view_optical_depth))
                                       SCATTERING_COEFFICIENTS))),
                     g'')"
  using assms
  by (simp add: light_at_ray_step_spec_def Let_def)

lemma light_at_ray_step_weight_differs:
  "light_at_ray_step (''distance'' # utils_module) example_distance unit_sky example_view
     (intersect example_view (atmosphere_obj unit_sky)) 2 1 (1 / 2) (zeros3, (\<lambda>i. 1 / 2))
   \<noteq> light_at_ray_step_spec (''distance'' # utils_module) example_distance unit_sky example_view
     (intersect example_view (atmosphere_obj unit_sky)) 2 1 (1 / 2) (zeros3, (\<lambda>i. 1 / 2))"
proof -
  let ?U = "''distance'' # utils_module"
  let ?g = "\<lambda>i::nat. 1 / 2 :: real"
  let ?d = "(- (1 / 2) / real 2) * (real 1 + 1 / 2)"
  let ?sp = "ray_at example_view ?d"
  let ?ta = "intersect \<lparr>pr = ?sp, nr = sun_direction unit_sky\<rparr> (atmosphere_obj unit_sky)"
  have U: "''distance'' \<in> set ?U" by simp
  obtain sd where "optical_depth ?U example_distance unit_sky ?sp (sun_direction unit_sky) ?ta
      OPTICAL_DEPTH_SAMPLES ?g = Inr (sd, (\<lambda>i. ?g (i + OPTICAL_DEPTH_SAMPLES)))"
    using optical_depth_bound [OF U unit_sky_height] by blast
  then have sd: "optical_depth ?U example_distance unit_sky ?sp (sun_direction unit_sky) ?ta
      OPTICAL_DEPTH_SAMPLES ?g = Inr (sd, ?g)" by simp
  obtain vd where "optical_depth ?U example_distance unit_sky ?sp (vneg (nr example_view)) ?d
      OPTICAL_DEPTH_SAMPLES ?g = Inr (vd, (\<lambda>i. ?g (i + OPTICAL_DEPTH_SAMPLES)))"
    using optical_depth_bound [OF U unit_sky_height] by blast
  then have vd: "optical_depth ?U example_distance unit_sky ?sp (vneg (nr example_view)) ?d
      OPTICAL_DEPTH_SAMPLES ?g = Inr (vd, ?g)" by simp
  have sp: "?sp = Vec3 0 (15 / 8) 0"
    by (simp add: example_view_def ray_at_def)
  have dens: "density_at_point ?U example_distance unit_sky ?sp = Inr (exp (- (7 / 2)) * (1 / 8))"
    unfolding sp density_at_point_bound [OF U unit_sky_height] example_distance_axis
    by (simp add: unit_sky_def SkyDome_def DENSITY_FALLOFF_def)
  have ns: "\<not> in_shadow unit_sky example_view ?d" by (rule unit_sky_not_in_shadow)
  have code: "light_at_ray_step ?U example_distance unit_sky example_view (- (1 / 2)) 2 1 (1 / 2)
        (zeros3, ?g)
      = Inr (vadd zeros3 (smul (exp (- (7 / 2)) * (1 / 8) * (1 / 2 * (- (1 / 2) / real 2)))
               (vmap exp (smul (- (sd + vd)) SCATTERING_COEFFICIENTS))), ?g)"
    using ns sd vd dens by (simp add: light_at_ray_step_def Let_def)
  have spec: "light_at_ray_step_spec ?U example_distance unit_sky example_view (- (1 / 2)) 2 1 (1 / 2)
        (zeros3, ?g)
      = Inr (vadd zeros3 (smul (exp (- (7 / 2)) * (1 / 8) * ((real 1 + 1 / 2) * (- (1 / 2) / real 2)))
               (vmap exp (smul (- (sd + vd)) SCATTERING_COEFFICIENTS))), ?g)"
    by (rule light_at_ray_step_spec_contribution [OF ns sd vd dens])
  show ?thesis
    unfolding example_view_dist code spec
    by (simp add: zeros3_def SCATTERING_COEFFICIENTS_def WAVE_LENGTHS_def)
qed

end
